theory Spec2Isabelle
  imports Complex_Main
begin

section \<open>Numbers and strings of the JavaScript source\<close>

text \<open>
  The analysers compute with JavaScript numbers. Every score, weight and penalty of the
  token analyser is an integer literal, so sums and products of them are exact in double
  precision and are modelled on \<open>int\<close>. The only non-integer arithmetic is a quotient
  that is handed to \<open>Math.round\<close> at once (and, in the honeypot detector, the decimal
  weights 0.3, 0.2, 0.15, 0.35); these are modelled on \<open>real\<close>, that is, without
  the rounding error of doubles. \<open>Math.round x\<close> is the integer nearest to \<open>x\<close>,
  a tie going up. For a quotient of two integers as small as the sums of the token
  analyser the double nearest to it lies on the same side of every half-integer as the
  quotient itself, so rounding the exact quotient is what the source computes. Where the
  decimal weights enter, the values stated below are far from a rounding boundary (7, 33.25)
  or are sums that doubles form exactly (28.5, which \<open>Math.round\<close> takes to 29), and the
  upper bound 66 holds on either side of 65.5.
\<close>

definition Math_round :: "real \<Rightarrow> int" where
  "Math_round x = \<lfloor>x + 1 / 2\<rfloor>"

text \<open>A JavaScript string used as a condition is true when it is present and not empty.\<close>

definition truthy :: "string option \<Rightarrow> bool" where
  "truthy v = (case v of None \<Rightarrow> False | Some s \<Rightarrow> s \<noteq> [])"

text \<open>\<open>String.prototype.includes\<close>: the pattern occurs as a contiguous substring.\<close>

fun startsWith :: "string \<Rightarrow> string \<Rightarrow> bool" where
  "startsWith s [] = True"
| "startsWith [] (p # ps) = False"
| "startsWith (c # cs) (p # ps) = (c = p \<and> startsWith cs ps)"

fun str_includes :: "string \<Rightarrow> string \<Rightarrow> bool" where
  "str_includes [] p = (p = [])"
| "str_includes (c # cs) p = (startsWith (c # cs) p \<or> str_includes cs p)"

text \<open>
  \<open>toLowerCase\<close> on the ASCII letters; the log lines and patterns of the monitors are
  ASCII, other bytes are left as they are.
\<close>

definition lower_char :: "char \<Rightarrow> char" where
  "lower_char c =
     (case map_of (zip ''ABCDEFGHIJKLMNOPQRSTUVWXYZ'' ''abcdefghijklmnopqrstuvwxyz'') c of
        Some l \<Rightarrow> l
      | None \<Rightarrow> c)"

definition toLowerCase :: "string \<Rightarrow> string" where
  "toLowerCase s = map lower_char s"

text \<open>
  A collaborator call either throws an \<open>Error\<close> with a message (\<open>Inl\<close>) or returns
  (\<open>Inr\<close>). A call that is raced against a timer has a third outcome: the timer
  fires first.
\<close>

type_synonym 'a fallible = "string + 'a"

datatype 'a outcome = TimedOut | Threw string | Returned 'a

section \<open>tokenAnalyzer.js: the checks and the aggregation\<close>

text \<open>
  A check result as \<open>calculateRiskScore\<close> and the callers read it: the issue and the
  warning messages, \<open>score\<close> (\<open>None\<close> when the field is missing or not a number) and
  the \<open>skipped\<close> flag (absent counts as false). The payload fields of the individual
  checks (mint info, metadata, holder list, price) are not read by the aggregation and are
  left out. Message texts are kept without their leading emoji.
\<close>

record check_result =
  issues :: "string list"
  warnings :: "string list"
  score :: "int option"
  skipped :: bool

type_synonym checks = "(string \<times> check_result) list"

definition weights :: "(string \<times> int) list" where
  "weights =
     [(''basicInfo'', 10), (''authorities'', 40), (''programOwnership'', 20),
      (''metadata'', 5), (''holders'', 15), (''honeypot'', 30), (''marketData'', 5)]"

text \<open>
  \<open>weights[checkName] || 10\<close>, for the check names that \<open>analyzeToken\<close> uses and any
  other name that is not a property of \<open>Object.prototype\<close>.
\<close>

definition weight_of :: "string \<Rightarrow> int" where
  "weight_of checkName =
     (case map_of weights checkName of
        Some w \<Rightarrow> (if w = 0 then 10 else w)
      | None \<Rightarrow> 10)"

text \<open>
  The body of the \<open>forEach\<close> in \<open>calculateRiskScore\<close>, on the pair of accumulators
  \<open>(totalScore, totalWeight)\<close>.
\<close>

definition accumulate :: "int \<times> int \<Rightarrow> string \<times> check_result \<Rightarrow> int \<times> int" where
  "accumulate acc entry =
     (case acc of (totalScore, totalWeight) \<Rightarrow>
      case entry of (checkName, result) \<Rightarrow>
        (case score result of
           Some s \<Rightarrow>
             if \<not> skipped result
             then (totalScore + s * weight_of checkName, totalWeight + weight_of checkName)
             else (totalScore, totalWeight)
         | None \<Rightarrow> (totalScore, totalWeight)))"

definition calculateRiskScore :: "checks \<Rightarrow> int" where
  "calculateRiskScore cs =
     (case foldl accumulate (0, 0) cs of (totalScore, totalWeight) \<Rightarrow>
        if totalWeight > 0 then Math_round (real_of_int totalScore / real_of_int totalWeight)
        else 50)"

text \<open>The checks that enter the weighted sum, and the closed form of the two sums.\<close>

definition counted :: "string \<times> check_result \<Rightarrow> bool" where
  "counted entry = (score (snd entry) \<noteq> None \<and> \<not> skipped (snd entry))"

definition weighted_score :: "string \<times> check_result \<Rightarrow> int" where
  "weighted_score entry =
     (case score (snd entry) of None \<Rightarrow> 0 | Some s \<Rightarrow> s * weight_of (fst entry))"

definition score_in_range :: "check_result \<Rightarrow> bool" where
  "score_in_range r = (case score r of None \<Rightarrow> True | Some s \<Rightarrow> 0 \<le> s \<and> s \<le> 100)"

section \<open>holderAnalyzer.js: concentration and its risk ladder\<close>

text \<open>
  A holder as \<open>calculateConcentration\<close> and \<open>assessHolderRisks\<close> read it: its share
  of the supply in percent and its account type. Percentages are doubles in the source
  and reals here.
\<close>

record holder =
  percentage :: real
  holder_type :: string

record concentration =
  top1Percentage :: real
  top5Percentage :: real
  top10Percentage :: real
  herfindahlIndex :: real

definition calculateConcentration :: "holder list \<Rightarrow> concentration" where
  "calculateConcentration holders =
     (case holders of
        [] \<Rightarrow> \<lparr>top1Percentage = 0, top5Percentage = 0, top10Percentage = 0, herfindahlIndex = 0\<rparr>
      | h # _ \<Rightarrow>
          \<lparr>top1Percentage = percentage h,
           top5Percentage = foldl (\<lambda>sum h. sum + percentage h) 0 (take 5 holders),
           top10Percentage = foldl (\<lambda>sum h. sum + percentage h) 0 (take 10 holders),
           herfindahlIndex =
             foldl (\<lambda>sum h. sum + (percentage h / 100) * (percentage h / 100)) 0 holders\<rparr>)"

text \<open>
  \<open>assessHolderRisks\<close> returns issues, warnings, the score and a severity; the score
  is what the token analyser aggregates. The messages are kept without the numbers
  interpolated into them.
\<close>

definition push_issue :: "string \<Rightarrow> int \<Rightarrow> string list \<times> string list \<times> int \<Rightarrow> string list \<times> string list \<times> int" where
  "push_issue msg penalty r = (case r of (is, ws, s) \<Rightarrow> (is @ [msg], ws, s - penalty))"

definition push_warning :: "string \<Rightarrow> int \<Rightarrow> string list \<times> string list \<times> int \<Rightarrow> string list \<times> string list \<times> int" where
  "push_warning msg penalty r = (case r of (is, ws, s) \<Rightarrow> (is, ws @ [msg], s - penalty))"

definition assessHolderRisks :: "concentration \<Rightarrow> holder list \<Rightarrow> check_result" where
  "assessHolderRisks c holders =
     (let r0 = ([], [], 100);
          r1 = (if top1Percentage c > 50
                then push_issue ''Single holder controls majority of supply'' 40 r0
                else if top1Percentage c > 30
                then push_warning ''Top holder controls a large share of supply'' 20 r0
                else r0);
          r2 = (if top10Percentage c > 80
                then push_issue ''Top 10 holders control most of supply'' 30 r1
                else if top10Percentage c > 60
                then push_warning ''Top 10 holders control a large share of supply'' 15 r1
                else r1);
          r3 = (if herfindahlIndex c > 0.25
                then push_issue ''Extremely concentrated holder distribution'' 25 r2
                else if herfindahlIndex c > 0.15
                then push_warning ''Highly concentrated holder distribution'' 15 r2
                else r2);
          programHolders = length (filter (\<lambda>h. holder_type h = ''PROGRAM'') holders);
          r4 = (if programHolders > 0
                then push_warning ''program-controlled holder accounts detected'' 10 r3
                else r3)
      in case r4 of (is, ws, s) \<Rightarrow>
           \<lparr>issues = is, warnings = ws, score = Some (max 0 s), skipped = False\<rparr>)"

section \<open>jupiterService.js: the service object and the swap simulation\<close>

text \<open>
  The module exports one object made by the constructor of \<open>JupiterService\<close>. The class
  declares a method \<open>rateLimit\<close>, and the constructor stores the number 1100 in the
  property of the same name (\<open>this.rateLimit = 1100\<close>). The own property hides the
  method of the prototype, so in the exported object \<open>this.rateLimit\<close> is a number, and
  the call \<open>this.rateLimit()\<close> with which \<open>testConnectivity\<close>, \<open>getPrice\<close> and
  \<open>getSwapQuote\<close> begin throws a \<open>TypeError\<close> inside their \<open>try\<close>.

  The model keeps of the object what that call reads: whether the property holds a
  number or the method. The HTTP requests are collaborators; each function takes the
  answer of the endpoint to its request, which is used only if the request is reached.

  The repository holds a second version of this file, without any HTTP request; its
  \<open>testConnectivity\<close> returns false and its \<open>getSwapQuote\<close> throws unconditionally. The
  version modelled here is the one with the requests.
\<close>

datatype member = Number int | Method

record jupiter_service =
  rateLimit :: member

definition JupiterService :: jupiter_service where
  "JupiterService = \<lparr>rateLimit = Number 1100\<rparr>"

text \<open>
  The call \<open>this.rateLimit()\<close>: calling a number throws; the method itself waits until
  1100 ms have passed since the last request and returns.
\<close>

definition call_rateLimit :: "jupiter_service \<Rightarrow> unit fallible" where
  "call_rateLimit service =
     (case rateLimit service of
        Number n \<Rightarrow> Inl ''this.rateLimit is not a function''
      | Method \<Rightarrow> Inr ())"

definition testConnectivity :: "jupiter_service \<Rightarrow> unit fallible \<Rightarrow> bool" where
  "testConnectivity service response =
     (case call_rateLimit service of
        Inl msg \<Rightarrow> False
      | Inr u \<Rightarrow> (case response of Inl msg \<Rightarrow> False | Inr v \<Rightarrow> True))"

text \<open>
  What \<open>simulateSwap\<close> reads of a quote: whether \<open>outAmount\<close> is there, the parsed
  price impact (\<open>None\<close> when the field is missing, which the source reads as 0) and the
  length of \<open>routePlan\<close> when there is one. The answer to a quote request is the response
  body (\<open>None\<close> when it is empty) or an error; \<open>getSwapQuote\<close> throws its errors on.
\<close>

record quote =
  outAmount :: "string option"
  priceImpactPct :: "real option"
  routePlan :: "nat option"

record swap_honeypot =
  isHoneypot :: bool
  confidence :: real
  probability :: "int option"
  indicators :: "string list"
  severity :: string

record swap_result =
  canBuy :: bool
  canSell :: bool
  honeypotAnalysis :: "swap_honeypot option"

definition getSwapQuote :: "jupiter_service \<Rightarrow> quote option fallible \<Rightarrow> quote option fallible" where
  "getSwapQuote service response =
     (case call_rateLimit service of
        Inl msg \<Rightarrow> Inl msg
      | Inr u \<Rightarrow> response)"

definition no_buy_route :: swap_result where
  "no_buy_route =
     \<lparr>canBuy = False, canSell = False,
      honeypotAnalysis = Some \<lparr>isHoneypot = True, confidence = 0.8, probability = None,
                               indicators = [''NO_BUY_ROUTE''], severity = ''CRITICAL''\<rparr>\<rparr>"

definition simulation_failed :: swap_result where
  "simulation_failed =
     \<lparr>canBuy = False, canSell = False,
      honeypotAnalysis = Some \<lparr>isHoneypot = False, confidence = 0.3, probability = Some 30,
                               indicators = [''SIMULATION_FAILED''], severity = ''MEDIUM''\<rparr>\<rparr>"

definition impact :: "quote \<Rightarrow> real" where
  "impact q = (case priceImpactPct q of None \<Rightarrow> 0 | Some x \<Rightarrow> x)"

text \<open>The final \<open>return\<close> of \<open>simulateSwap\<close>, from \<open>canSell\<close>, the probability and the indicators.\<close>

definition swap_report :: "bool \<Rightarrow> int \<Rightarrow> string list \<Rightarrow> swap_result" where
  "swap_report sellable honeypotProbability inds =
     \<lparr>canBuy = True, canSell = sellable,
      honeypotAnalysis =
        Some \<lparr>isHoneypot = (honeypotProbability > 50),
              confidence = min 0.9 (real_of_int honeypotProbability / 100),
              probability = Some honeypotProbability,
              indicators = inds,
              severity =
                (if honeypotProbability > 80 then ''CRITICAL''
                 else if honeypotProbability > 50 then ''HIGH'' else ''LOW'')\<rparr>\<rparr>"

text \<open>
  \<open>simulateSwap\<close> asks for a buy quote and, when that has an \<open>outAmount\<close>, for a sell
  quote; the last two arguments are the answers of the endpoint to the two requests. An
  error of either \<open>getSwapQuote\<close> ends in the \<open>catch\<close> (\<open>SIMULATION_FAILED\<close>).
\<close>

definition simulateSwap :: "jupiter_service \<Rightarrow> quote option fallible \<Rightarrow> quote option fallible \<Rightarrow> swap_result" where
  "simulateSwap service buy sell =
     (case getSwapQuote service buy of
        Inl msg \<Rightarrow> simulation_failed
      | Inr None \<Rightarrow> no_buy_route
      | Inr (Some buyQuote) \<Rightarrow>
          if \<not> truthy (outAmount buyQuote) then no_buy_route
          else
            (case getSwapQuote service sell of
               Inl msg \<Rightarrow> simulation_failed
             | Inr None \<Rightarrow> swap_report False 95 [''CANNOT_SELL'']
             | Inr (Some sellQuote) \<Rightarrow>
                 (let buyImpact = impact buyQuote;
                      sellImpact = impact sellQuote;
                      p1 = (if buyImpact > 10 then (20, [''HIGH_BUY_IMPACT'']) else (0, []));
                      p2 = (if sellImpact > 15
                            then (fst p1 + 30, snd p1 @ [''HIGH_SELL_IMPACT'']) else p1);
                      p3 = (if routePlan buyQuote = Some 1
                            then (fst p2 + 10, snd p2 @ [''LIMITED_ROUTES'']) else p2)
                  in swap_report True (fst p3) (snd p3))))"

text \<open>
  \<open>getPrice\<close> returns \<open>null\<close> from its \<open>catch\<close>, whatever was thrown; the second
  argument is the answer to its request, with the token's entry of the response when there
  is one.
\<close>

record price_data =
  price :: real


section \<open>honeypotDetector.js: the sub-tests and their weighted probability\<close>

text \<open>
  What the token analyser reads of the chain. \<open>getTokenMintInfo\<close> gives each authority
  as a key or \<open>null\<close>; the supply is the parsed \<open>uiAmountString\<close>.
\<close>

record mint_info =
  mintAuthority :: "string option"
  freezeAuthority :: "string option"
  decimals :: nat

record token_supply =
  totalSupply :: real

record account_info =
  owner :: string
  executable :: bool

definition standardPrograms :: "string list" where
  "standardPrograms =
     [''TokenkegQfeZyiNwAJbNbGKPFXCWuBvf9Ss623VQ5DA'',
      ''TokenzQdBNbLqP5VEhdkAS6EPFLC1PHnBqCXEpPxuEb'']"

text \<open>
  A sub-test result of the detector. \<open>test_riskScore\<close> is \<open>None\<close> when the field is not a
  number; \<open>sim_canBuy\<close> and \<open>sim_canSell\<close> are set by a completed trading simulation only.
\<close>

record test_result =
  test_issues :: "string list"
  test_riskScore :: "int option"
  test_severity :: string
  simulation :: "string option"
  sim_canBuy :: "bool option"
  sim_canSell :: "bool option"

definition sub_test :: "string list \<Rightarrow> int \<Rightarrow> string \<Rightarrow> test_result" where
  "sub_test is r sev =
     \<lparr>test_issues = is, test_riskScore = Some r, test_severity = sev,
      simulation = None, sim_canBuy = None, sim_canSell = None\<rparr>"

definition analyzeAuthorities_hp :: "mint_info fallible \<Rightarrow> test_result" where
  "analyzeAuthorities_hp call =
     (case call of
        Inl msg \<Rightarrow> sub_test [''AUTHORITY_ANALYSIS_FAILED''] 30 ''MEDIUM''
      | Inr mintInfo \<Rightarrow>
          (let r0 = ([], 0);
               r1 = (if truthy (mintAuthority mintInfo)
                     then (fst r0 @ [''MINT_AUTHORITY_ACTIVE''], snd r0 + 40) else r0);
               r2 = (if truthy (freezeAuthority mintInfo)
                     then (fst r1 @ [''FREEZE_AUTHORITY_ACTIVE''], snd r1 + 50) else r1);
               r = snd r2
           in sub_test (fst r2) r
                (if r > 70 then ''CRITICAL'' else if r > 30 then ''HIGH'' else ''LOW'')))"

definition analyzeProgram :: "account_info option fallible \<Rightarrow> test_result" where
  "analyzeProgram call =
     (case call of
        Inl msg \<Rightarrow> sub_test [''PROGRAM_ANALYSIS_FAILED''] 40 ''MEDIUM''
      | Inr None \<Rightarrow> sub_test [''ACCOUNT_NOT_FOUND''] 90 ''CRITICAL''
      | Inr (Some accountInfo) \<Rightarrow>
          (let isStandard = (owner accountInfo \<in> set standardPrograms)
           in sub_test (if isStandard then [] else [''NON_STANDARD_PROGRAM''])
                (if isStandard then 0 else 60)
                (if isStandard then ''LOW'' else ''HIGH'')))"

definition analyzeSupplyMetrics :: "token_supply fallible \<Rightarrow> mint_info fallible \<Rightarrow> test_result" where
  "analyzeSupplyMetrics supplyCall mintCall =
     (case supplyCall of
        Inl msg \<Rightarrow> sub_test [''SUPPLY_ANALYSIS_FAILED''] 30 ''MEDIUM''
      | Inr supply \<Rightarrow>
          (case mintCall of
             Inl msg \<Rightarrow> sub_test [''SUPPLY_ANALYSIS_FAILED''] 30 ''MEDIUM''
           | Inr mintInfo \<Rightarrow>
               (let r0 = ([], 0);
                    r1 = (if totalSupply supply = 0 then (fst r0 @ [''ZERO_SUPPLY''], snd r0 + 80)
                          else if totalSupply supply > 1000000000000
                          then (fst r0 @ [''EXTREMELY_HIGH_SUPPLY''], snd r0 + 15)
                          else r0);
                    r2 = (if decimals mintInfo > 18 \<or> decimals mintInfo = 0
                          then (fst r1 @ [''UNUSUAL_DECIMALS''], snd r1 + 10) else r1);
                    r = snd r2
                in sub_test (fst r2) r
                     (if r > 60 then ''CRITICAL'' else if r > 20 then ''MEDIUM'' else ''LOW''))))"

text \<open>
  \<open>runTradingSimulation\<close> asks the service whether it is reachable and, if so, for the
  swap simulation; the arguments after the service are the answers of the endpoints to the
  connectivity request and to the two quote requests. \<open>testConnectivity\<close> and
  \<open>simulateSwap\<close> catch their own errors, so the \<open>catch\<close> of this function (simulation
  \<open>FAILED\<close>, risk score 40) is never entered and is not modelled.
\<close>

definition runTradingSimulation :: "jupiter_service \<Rightarrow> unit fallible \<Rightarrow> quote option fallible \<Rightarrow> quote option fallible \<Rightarrow> test_result" where
  "runTradingSimulation jupiterService connectivity buy sell =
     (if \<not> testConnectivity jupiterService connectivity
      then \<lparr>test_issues = [], test_riskScore = Some 20, test_severity = ''LOW'',
            simulation = Some ''SKIPPED'', sim_canBuy = None, sim_canSell = None\<rparr>
      else
        (let result = simulateSwap jupiterService buy sell;
             r0 = ([], 0);
             r1 = (if \<not> canBuy result
                   then (fst r0 @ [''CANNOT_BUY_TOKEN''], snd r0 + 80) else r0);
             r2 = (if \<not> canSell result
                   then (fst r1 @ [''CANNOT_SELL_TOKEN''], snd r1 + 90) else r1);
             r3 = (case honeypotAnalysis result of
                     None \<Rightarrow> r2
                   | Some h \<Rightarrow>
                       (fst r2 @ indicators h,
                        max (snd r2) (case probability h of None \<Rightarrow> 0 | Some p \<Rightarrow> p)));
             r = snd r3
         in \<lparr>test_issues = fst r3, test_riskScore = Some r,
             test_severity =
               (if r > 80 then ''CRITICAL'' else if r > 50 then ''HIGH'' else ''LOW''),
             simulation = Some ''COMPLETED'',
             sim_canBuy = Some (canBuy result), sim_canSell = Some (canSell result)\<rparr>))"

definition weights_hp :: "(string \<times> real) list" where
  "weights_hp =
     [(''authorityAnalysis'', 0.3), (''programAnalysis'', 0.2),
      (''supplyAnalysis'', 0.15), (''tradingSimulation'', 0.35)]"

definition weight_of_hp :: "string \<Rightarrow> real" where
  "weight_of_hp testName =
     (case map_of weights_hp testName of
        Some w \<Rightarrow> (if w = 0 then 0.1 else w)
      | None \<Rightarrow> 0.1)"

definition accumulate_hp :: "real \<times> real \<Rightarrow> string \<times> test_result \<Rightarrow> real \<times> real" where
  "accumulate_hp acc entry =
     (case acc of (totalRisk, totalWeight) \<Rightarrow>
      case entry of (testName, result) \<Rightarrow>
        (case test_riskScore result of
           Some r \<Rightarrow>
             (totalRisk + real_of_int r * weight_of_hp testName,
              totalWeight + weight_of_hp testName)
         | None \<Rightarrow> (totalRisk, totalWeight)))"

record honeypot_probability =
  overall :: int
  hp_confidence :: real

definition calculateHoneypotProbability :: "(string \<times> test_result) list \<Rightarrow> honeypot_probability" where
  "calculateHoneypotProbability tests =
     (case foldl accumulate_hp (0, 0) tests of (totalRisk, totalWeight) \<Rightarrow>
        (let ov = (if totalWeight > 0 then Math_round (totalRisk / totalWeight) else 30)
         in \<lparr>overall = max 0 (min 100 ov), hp_confidence = min 0.9 totalWeight\<rparr>))"

definition generateVerdict :: "honeypot_probability \<Rightarrow> string" where
  "generateVerdict prob =
     (if overall prob \<ge> 80 then ''CONFIRMED_HONEYPOT''
      else if overall prob \<ge> 60 then ''LIKELY_HONEYPOT''
      else if overall prob \<ge> 40 then ''SUSPICIOUS''
      else if overall prob \<ge> 20 then ''CAUTION_ADVISED''
      else ''LOW_RISK'')"

text \<open>
  What the RPC node and the Jupiter endpoints answer in one run of \<open>detectHoneypot\<close>, in
  the order of the requests. The detector uses the exported service object. Every sub-test
  catches its own errors, so the outer \<open>catch\<close> of \<open>detectHoneypot\<close> is never entered
  and is not modelled.
\<close>

record honeypot_calls =
  authority_mintInfo :: "mint_info fallible"
  program_accountInfo :: "account_info option fallible"
  supply_supply :: "token_supply fallible"
  supply_mintInfo :: "mint_info fallible"
  connectivity_response :: "unit fallible"
  buy_response :: "quote option fallible"
  sell_response :: "quote option fallible"

record honeypot_analysis =
  tests :: "(string \<times> test_result) list"
  honeypotProbability :: honeypot_probability
  verdict :: string

definition detectHoneypot :: "honeypot_calls \<Rightarrow> honeypot_analysis" where
  "detectHoneypot calls =
     (let ts =
            [(''authorityAnalysis'', analyzeAuthorities_hp (authority_mintInfo calls)),
             (''programAnalysis'', analyzeProgram (program_accountInfo calls)),
             (''supplyAnalysis'', analyzeSupplyMetrics (supply_supply calls) (supply_mintInfo calls)),
             (''tradingSimulation'',
                runTradingSimulation JupiterService (connectivity_response calls)
                  (buy_response calls) (sell_response calls))];
          p = calculateHoneypotProbability ts
      in \<lparr>tests = ts, honeypotProbability = p, verdict = generateVerdict p\<rparr>)"

section \<open>tokenAnalyzer.js: the individual checks and analyzeToken\<close>

definition failed_check :: "string \<Rightarrow> check_result" where
  "failed_check msg = \<lparr>issues = [msg], warnings = [], score = Some 0, skipped = False\<rparr>"

definition analyzeBasicInfo :: "mint_info fallible \<Rightarrow> token_supply fallible \<Rightarrow> check_result" where
  "analyzeBasicInfo mintCall supplyCall =
     (case mintCall of
        Inl msg \<Rightarrow> failed_check msg
      | Inr mintInfo \<Rightarrow>
          (case supplyCall of
             Inl msg \<Rightarrow> failed_check msg
           | Inr supply \<Rightarrow> \<lparr>issues = [], warnings = [], score = Some 100, skipped = False\<rparr>))"

definition analyzeAuthorities :: "mint_info fallible \<Rightarrow> check_result" where
  "analyzeAuthorities mintCall =
     (case mintCall of
        Inl msg \<Rightarrow> failed_check msg
      | Inr mintInfo \<Rightarrow>
          (let is = (if truthy (mintAuthority mintInfo)
                     then [''MINT AUTHORITY NOT REVOKED - Supply can be inflated!''] else []) @
                    (if truthy (freezeAuthority mintInfo)
                     then [''FREEZE AUTHORITY NOT REVOKED - Accounts can be frozen!''] else []);
               ws = [];
               s = 100 - int (length is) * 40 - int (length ws) * 10
           in \<lparr>issues = is, warnings = ws, score = Some (max 0 s), skipped = False\<rparr>))"

definition analyzeProgramOwnership :: "account_info option fallible \<Rightarrow> check_result" where
  "analyzeProgramOwnership call =
     (case call of
        Inl msg \<Rightarrow> failed_check msg
      | Inr None \<Rightarrow> failed_check ''Token account not found''
      | Inr (Some accountInfo) \<Rightarrow>
          (let isStandardProgram = (owner accountInfo \<in> set standardPrograms)
           in \<lparr>issues = (if \<not> isStandardProgram
                          then [''Non-standard program owner: '' @ owner accountInfo] else []),
               warnings = [],
               score = Some (if isStandardProgram then 100 else 20),
               skipped = False\<rparr>))"

record token_metadata =
  name :: "string option"
  symbol :: "string option"
  source :: string

definition analyzeMetadataWithTimeout :: "token_metadata option outcome \<Rightarrow> check_result" where
  "analyzeMetadataWithTimeout call =
     (case call of
        TimedOut \<Rightarrow>
          \<lparr>issues = [], warnings = [''Metadata analysis timed out''], score = Some 70,
           skipped = True\<rparr>
      | Threw msg \<Rightarrow> failed_check msg
      | Returned metadata \<Rightarrow>
          (let is = [];
               ws = (if (case metadata of None \<Rightarrow> True | Some m \<Rightarrow> \<not> truthy (name m))
                     then [''No token name found''] else []) @
                    (if (case metadata of None \<Rightarrow> True | Some m \<Rightarrow> \<not> truthy (symbol m))
                     then [''No token symbol found''] else []) @
                    (if (case metadata of None \<Rightarrow> False | Some m \<Rightarrow> source m = ''BASIC'')
                     then [''No Metaplex metadata found''] else []);
               s = 100 - int (length is) * 20 - int (length ws) * 5
           in \<lparr>issues = is, warnings = ws, score = Some (max 0 s), skipped = False\<rparr>))"

text \<open>
  The holder check resolves with whatever \<open>analyzeHolderDistribution\<close> returned; that
  function catches its own errors and ends in \<open>assessHolderRisks\<close>.
\<close>

definition analyzeHoldersWithTimeout :: "check_result outcome \<Rightarrow> check_result" where
  "analyzeHoldersWithTimeout call =
     (case call of
        TimedOut \<Rightarrow>
          \<lparr>issues = [],
           warnings = [''Holder analysis skipped - token too popular or network slow''],
           score = Some 70, skipped = True\<rparr>
      | Threw msg \<Rightarrow> failed_check msg
      | Returned result \<Rightarrow> result)"

text \<open>
  \<open>runHoneypotDetection\<close> reads the overall probability and looks for a sub-test named
  \<open>swapSimulation\<close> in the detector's result.
\<close>

definition runHoneypotDetection :: "honeypot_analysis outcome \<Rightarrow> check_result" where
  "runHoneypotDetection call =
     (case call of
        TimedOut \<Rightarrow>
          \<lparr>issues = [],
           warnings = [''Honeypot detection timed out - Jupiter API may be unavailable''],
           score = Some 50, skipped = True\<rparr>
      | Threw msg \<Rightarrow> \<lparr>issues = [msg], warnings = [], score = Some 30, skipped = False\<rparr>
      | Returned result \<Rightarrow>
          (let ov = overall (honeypotProbability result);
               is = (if ov > 70 then [''HIGH HONEYPOT RISK''] else []) @
                    (case map_of (tests result) ''swapSimulation'' of
                       None \<Rightarrow> []
                     | Some t \<Rightarrow>
                         if sim_canSell t \<noteq> Some True
                         then [''CANNOT SELL TOKENS - Confirmed honeypot!''] else []);
               ws = (if \<not> ov > 70 \<and> ov > 40 then [''Moderate honeypot risk''] else [])
           in \<lparr>issues = is, warnings = ws, score = Some (max 0 (100 - ov)), skipped = False\<rparr>))"

definition analyzeMarketData :: "price_data option outcome \<Rightarrow> check_result" where
  "analyzeMarketData call =
     (case call of
        TimedOut \<Rightarrow>
          \<lparr>issues = [], warnings = [''Market data unavailable''], score = Some 70,
           skipped = True\<rparr>
      | Threw msg \<Rightarrow>
          \<lparr>issues = [], warnings = [''Failed to fetch price data''], score = Some 50,
           skipped = False\<rparr>
      | Returned p \<Rightarrow>
          \<lparr>issues = [],
           warnings = (if p \<noteq> None then [] else [''No price data available'']),
           score = Some (if p \<noteq> None then 100 else 50),
           skipped = False\<rparr>)"

text \<open>
  The options of \<open>analyzeToken\<close>: a check is left out only when its option is exactly
  \<open>false\<close>, so each field here is true unless the caller passed \<open>false\<close>. The options
  argument itself may be \<open>null\<close> (\<open>None\<close>); then reading the first option throws, and the
  \<open>catch\<close> of \<open>analyzeToken\<close> throws the error on.
\<close>

record options =
  includeMetadata :: bool
  includeHolderAnalysis :: bool
  includeHoneypotDetection :: bool
  includeMarketData :: bool

text \<open>The collaborator calls of one analysis, each with its outcome.\<close>

record collaborators =
  basic_mintInfo :: "mint_info fallible"
  basic_supply :: "token_supply fallible"
  auth_mintInfo :: "mint_info fallible"
  owner_accountInfo :: "account_info option fallible"
  metadata_call :: "token_metadata option outcome"
  holders_call :: "check_result outcome"
  honeypot_call :: "honeypot_analysis outcome"
  market_call :: "price_data option outcome"

record token_analysis =
  checks :: checks
  riskScore :: int
  safetyLevel :: string

definition getSafetyLevel :: "int \<Rightarrow> string" where
  "getSafetyLevel s =
     (if s \<ge> 80 then ''SAFE''
      else if s \<ge> 60 then ''CAUTION''
      else if s \<ge> 40 then ''RISKY''
      else ''DANGEROUS'')"

definition analyzeToken :: "options option \<Rightarrow> collaborators \<Rightarrow> token_analysis fallible" where
  "analyzeToken opts c =
     (case opts of
        None \<Rightarrow> Inl ''TypeError''
      | Some os \<Rightarrow>
          (let cs =
                 [(''basicInfo'', analyzeBasicInfo (basic_mintInfo c) (basic_supply c)),
                  (''authorities'', analyzeAuthorities (auth_mintInfo c)),
                  (''programOwnership'', analyzeProgramOwnership (owner_accountInfo c))] @
                 (if includeMetadata os
                  then [(''metadata'', analyzeMetadataWithTimeout (metadata_call c))] else []) @
                 (if includeHolderAnalysis os
                  then [(''holders'', analyzeHoldersWithTimeout (holders_call c))] else []) @
                 (if includeHoneypotDetection os
                  then [(''honeypot'', runHoneypotDetection (honeypot_call c))] else []) @
                 (if includeMarketData os
                  then [(''marketData'', analyzeMarketData (market_call c))] else []);
               rs = calculateRiskScore cs
           in Inr \<lparr>checks = cs, riskScore = rs, safetyLevel = getSafetyLevel rs\<rparr>))"

section \<open>holderAnalyzer.js: analyzeHolderDistribution\<close>









section \<open>metadataService.js: getTokenMetadata\<close>



section \<open>One run of analyzeToken\<close>




section \<open>index.js: how the validator reads the final score\<close>

text \<open>
  \<open>EnhancedSolanaTokenValidator.getSafetyLevel\<close>, applied to the analysis' \<open>riskScore\<close>
  (or its liquidity-adjusted variant) when the result is printed.
\<close>

definition getSafetyLevel_validator :: "int \<Rightarrow> string" where
  "getSafetyLevel_validator s =
     (if s \<ge> 80 then ''EXTREMELY DANGEROUS''
      else if s \<ge> 60 then ''HIGH RISK''
      else if s \<ge> 40 then ''MODERATE RISK''
      else if s \<ge> 20 then ''LOW RISK''
      else ''APPEARS SAFE'')"

section \<open>The monitors: listener, bounded queue and worker\<close>

text \<open>
  The three monitor classes keep the same fields. \<open>inFlight\<close> is not a field of the
  source: it lists the worker callbacks that are suspended at their \<open>await\<close> of the
  analysis, each with the event it took from the queue, oldest first. The counters are the
  fields of \<open>this.stats\<close>; a class that has no such counter never touches it. The ISO
  \<open>timestamp\<close> of an event repeats \<open>detectedAt\<close> and is left out, as are the API-call
  counter and the list of recent results, which only the analysis itself writes.
\<close>

record token_event =
  signature :: string
  slot :: nat
  logs :: "string list"
  detectedAt :: int

record stats =
  stats_detected :: nat
  stats_analyzed :: nat
  stats_filtered :: nat
  stats_failed :: nat
  stats_queued :: nat
  stats_skipped :: nat

record monitor =
  tokenQueue :: "token_event list"
  isAnalyzing :: bool
  isStreaming :: bool
  processedSignatures :: "string set"
  maxQueueSize :: nat
  analysisDelay :: int
  stats :: stats
  inFlight :: "token_event list"

definition no_stats :: stats where
  "no_stats =
     \<lparr>stats_detected = 0, stats_analyzed = 0, stats_filtered = 0, stats_failed = 0,
      stats_queued = 0, stats_skipped = 0\<rparr>"

text \<open>The constructors.\<close>

definition ComprehensivePumpMonitor :: monitor where
  "ComprehensivePumpMonitor =
     \<lparr>tokenQueue = [], isAnalyzing = False, isStreaming = True, processedSignatures = {},
      maxQueueSize = 6, analysisDelay = 25000, stats = no_stats, inFlight = []\<rparr>"

definition OptimizedPumpMonitor :: monitor where
  "OptimizedPumpMonitor =
     \<lparr>tokenQueue = [], isAnalyzing = False, isStreaming = True, processedSignatures = {},
      maxQueueSize = 5, analysisDelay = 15000, stats = no_stats, inFlight = []\<rparr>"

text \<open>\<open>EnhancedPumpFunMonitor\<close> has no age gate; its \<open>analysisDelay\<close> is never read.\<close>

definition EnhancedPumpFunMonitor :: monitor where
  "EnhancedPumpFunMonitor =
     \<lparr>tokenQueue = [], isAnalyzing = False, isStreaming = True, processedSignatures = {},
      maxQueueSize = 100, analysisDelay = 0, stats = no_stats, inFlight = []\<rparr>"

text \<open>
  A log notification: the signature and the log lines of \<open>result.value\<close>, and the slot of
  \<open>result.context\<close> (\<open>None\<close> when the context is missing, so that reading the slot
  throws). A notification without \<open>result.value\<close> or without log lines is \<open>None\<close> as a
  whole: the handler throws before it changes anything, and its own \<open>catch\<close> logs the
  error.
\<close>

record log_params =
  p_signature :: string
  p_logs :: "string list"
  p_slot :: "nat option"

datatype message =
  Unparsable
  | Subscribed nat
  | LogsNotification "log_params option"
  | OtherMessage

definition bump_detected :: "monitor \<Rightarrow> monitor" where
  "bump_detected m = m\<lparr>stats := (stats m)\<lparr>stats_detected := stats_detected (stats m) + 1\<rparr>\<rparr>"

subsection \<open>comprehensivePumpMonitor.js\<close>

definition isRealTokenCreation :: "string list \<Rightarrow> bool" where
  "isRealTokenCreation ls =
     list_ex (\<lambda>indicator. list_ex (\<lambda>log. str_includes log indicator) ls)
       [''Program log: Instruction: InitializeMint2'', ''Program log: Instruction: Create'']"

definition processTokenCreation :: "monitor \<Rightarrow> log_params option \<Rightarrow> int \<Rightarrow> monitor" where
  "processTokenCreation m params now =
     (case params of
        None \<Rightarrow> m
      | Some p \<Rightarrow>
          if p_signature p \<in> processedSignatures m then m
          else if \<not> isRealTokenCreation (p_logs p) then m
          else
            (let m1 = bump_detected
                        (m\<lparr>processedSignatures := insert (p_signature p) (processedSignatures m)\<rparr>)
             in case p_slot p of
                  None \<Rightarrow> m1
                | Some sl \<Rightarrow>
                    (let tokenEvent = \<lparr>signature = p_signature p, slot = sl, logs = p_logs p,
                                       detectedAt = now\<rparr>
                     in if length (tokenQueue m1) < maxQueueSize m1
                        then m1\<lparr>tokenQueue := tokenQueue m1 @ [tokenEvent]\<rparr>
                        else m1)))"

definition handleMessage :: "monitor \<Rightarrow> message \<Rightarrow> int \<Rightarrow> monitor" where
  "handleMessage m msg now =
     (if \<not> isStreaming m then m
      else case msg of
             LogsNotification params \<Rightarrow> processTokenCreation m params now
           | _ \<Rightarrow> m)"

text \<open>
  The callback that \<open>startComprehensiveWorker\<close> hands to \<open>setInterval\<close>, from its start
  to its \<open>await\<close> (or its early \<open>return\<close>); \<open>now\<close> is what \<open>Date.now()\<close> returns. No
  other callback runs in between.
\<close>

definition startComprehensiveWorker :: "monitor \<Rightarrow> int \<Rightarrow> monitor" where
  "startComprehensiveWorker m now =
     (if \<not> isAnalyzing m \<and> length (tokenQueue m) > 0
      then
        (case tokenQueue m of
           [] \<Rightarrow> m
         | tokenEvent # rest \<Rightarrow>
             (let m1 = m\<lparr>isAnalyzing := True\<rparr>;
                  m2 = m1\<lparr>tokenQueue := rest\<rparr>;
                  tokenAge = now - detectedAt tokenEvent
              in if tokenAge < analysisDelay m2
                 then m2\<lparr>tokenQueue := tokenEvent # tokenQueue m2, isAnalyzing := False\<rparr>
                 else m2\<lparr>inFlight := inFlight m2 @ [tokenEvent]\<rparr>))
      else m)"

text \<open>
  The rest of that callback, run when the awaited analysis settles: \<open>ok\<close> tells whether it
  resolved (the counter is incremented) or rejected (the \<open>catch\<close> logs); \<open>finally\<close> clears
  the flag either way.
\<close>

definition comprehensiveWorker_settled :: "monitor \<Rightarrow> bool \<Rightarrow> monitor" where
  "comprehensiveWorker_settled m ok =
     (case inFlight m of
        [] \<Rightarrow> m
      | tokenEvent # rest \<Rightarrow>
          (let m1 = (if ok
                     then m\<lparr>stats := (stats m)\<lparr>stats_analyzed := stats_analyzed (stats m) + 1\<rparr>\<rparr>
                     else m)
           in m1\<lparr>isAnalyzing := False, inFlight := rest\<rparr>))"

text \<open>
  What can happen to a monitor: a WebSocket message arrives, the interval timer fires, a
  pending analysis settles, or the operator toggles streaming. Timestamps are inputs.
\<close>

datatype input =
  Message message int
  | Tick int
  | Settled bool
  | ToggleStreaming

definition comprehensive_step :: "monitor \<Rightarrow> input \<Rightarrow> monitor" where
  "comprehensive_step m i =
     (case i of
        Message msg now \<Rightarrow> handleMessage m msg now
      | Tick now \<Rightarrow> startComprehensiveWorker m now
      | Settled ok \<Rightarrow> comprehensiveWorker_settled m ok
      | ToggleStreaming \<Rightarrow> m\<lparr>isStreaming := \<not> isStreaming m\<rparr>)"

definition comprehensive_run :: "input list \<Rightarrow> monitor" where
  "comprehensive_run inputs = foldl comprehensive_step ComprehensivePumpMonitor inputs"

text \<open>The events that a message step appended to the queue.\<close>

definition appended :: "monitor \<Rightarrow> monitor \<Rightarrow> token_event list" where
  "appended m m' = drop (length (tokenQueue m)) (tokenQueue m')"

fun comprehensive_entered :: "monitor \<Rightarrow> input list \<Rightarrow> token_event list" where
  "comprehensive_entered m [] = []"
| "comprehensive_entered m (i # inputs) =
     (case i of
        Message msg now \<Rightarrow> appended m (comprehensive_step m i)
      | _ \<Rightarrow> []) @ comprehensive_entered (comprehensive_step m i) inputs"

subsection \<open>optimizedPumpMonitor.js\<close>

definition isActualTokenCreation :: "string list \<Rightarrow> bool" where
  "isActualTokenCreation ls =
     (let hasRequired =
            list_ex (\<lambda>pattern. list_ex (\<lambda>log. str_includes log pattern) ls)
              [''Program log: Instruction: InitializeMint2'', ''Program log: Instruction: Create'']
      in if \<not> hasRequired then False
         else
           (let hasExclusion =
                  list_ex (\<lambda>log.
                     list_ex (\<lambda>pattern. str_includes (toLowerCase log) (toLowerCase pattern))
                       [''Swap'', ''Buy'', ''Sell'', ''Transfer'', ''Burn'']) ls
            in \<not> hasExclusion))"

definition processLogEvent :: "monitor \<Rightarrow> log_params option \<Rightarrow> int \<Rightarrow> monitor" where
  "processLogEvent m params now =
     (case params of
        None \<Rightarrow> m
      | Some p \<Rightarrow>
          if p_signature p \<in> processedSignatures m then m
          else if \<not> isActualTokenCreation (p_logs p)
          then m\<lparr>stats := (stats m)\<lparr>stats_filtered := stats_filtered (stats m) + 1\<rparr>\<rparr>
          else
            (let m1 = bump_detected
                        (m\<lparr>processedSignatures := insert (p_signature p) (processedSignatures m)\<rparr>)
             in case p_slot p of
                  None \<Rightarrow> m1
                | Some sl \<Rightarrow>
                    (let tokenEvent = \<lparr>signature = p_signature p, slot = sl, logs = p_logs p,
                                       detectedAt = now\<rparr>
                     in if length (tokenQueue m1) < maxQueueSize m1
                        then m1\<lparr>tokenQueue := tokenQueue m1 @ [tokenEvent]\<rparr>
                        else m1)))"

definition handleMessage_optimized :: "monitor \<Rightarrow> message \<Rightarrow> int \<Rightarrow> monitor" where
  "handleMessage_optimized m msg now =
     (if \<not> isStreaming m then m
      else case msg of
             LogsNotification params \<Rightarrow> processLogEvent m params now
           | _ \<Rightarrow> m)"

definition startOptimizedWorker :: "monitor \<Rightarrow> int \<Rightarrow> monitor" where
  "startOptimizedWorker m now =
     (if \<not> isAnalyzing m \<and> length (tokenQueue m) > 0
      then
        (case tokenQueue m of
           [] \<Rightarrow> m
         | tokenEvent # rest \<Rightarrow>
             (let m1 = m\<lparr>isAnalyzing := True\<rparr>;
                  m2 = m1\<lparr>tokenQueue := rest\<rparr>;
                  tokenAge = now - detectedAt tokenEvent
              in if tokenAge < analysisDelay m2
                 then m2\<lparr>tokenQueue := tokenEvent # tokenQueue m2, isAnalyzing := False\<rparr>
                 else m2\<lparr>inFlight := inFlight m2 @ [tokenEvent]\<rparr>))
      else m)"

definition optimizedWorker_settled :: "monitor \<Rightarrow> bool \<Rightarrow> monitor" where
  "optimizedWorker_settled m ok =
     (case inFlight m of
        [] \<Rightarrow> m
      | tokenEvent # rest \<Rightarrow>
          (let m1 = (if ok
                     then m\<lparr>stats := (stats m)\<lparr>stats_analyzed := stats_analyzed (stats m) + 1\<rparr>\<rparr>
                     else m\<lparr>stats := (stats m)\<lparr>stats_failed := stats_failed (stats m) + 1\<rparr>\<rparr>)
           in m1\<lparr>isAnalyzing := False, inFlight := rest\<rparr>))"

definition optimized_step :: "monitor \<Rightarrow> input \<Rightarrow> monitor" where
  "optimized_step m i =
     (case i of
        Message msg now \<Rightarrow> handleMessage_optimized m msg now
      | Tick now \<Rightarrow> startOptimizedWorker m now
      | Settled ok \<Rightarrow> optimizedWorker_settled m ok
      | ToggleStreaming \<Rightarrow> m\<lparr>isStreaming := \<not> isStreaming m\<rparr>)"

definition optimized_run :: "input list \<Rightarrow> monitor" where
  "optimized_run inputs = foldl optimized_step OptimizedPumpMonitor inputs"

fun optimized_entered :: "monitor \<Rightarrow> input list \<Rightarrow> token_event list" where
  "optimized_entered m [] = []"
| "optimized_entered m (i # inputs) =
     (case i of
        Message msg now \<Rightarrow> appended m (optimized_step m i)
      | _ \<Rightarrow> []) @ optimized_entered (optimized_step m i) inputs"

subsection \<open>The queue-based monitor (\<open>EnhancedPumpFunMonitor\<close>)\<close>

text \<open>
  This class follows the optimized monitor in the same source file. Its handler tests
  \<open>isStreaming\<close> itself, and its events carry the accounts of the transaction instead
  of the log lines, so \<open>logs\<close> stays empty.
\<close>

definition hasTokenCreation :: "string list \<Rightarrow> bool" where
  "hasTokenCreation ls =
     list_ex (\<lambda>log.
        str_includes log ''Program log: Instruction: InitializeMint2'' \<or>
        str_includes log ''InitializeMint2'' \<or>
        str_includes log ''CreateToken'' \<or>
        (str_includes log ''create'' \<and> str_includes log ''mint'')) ls"

definition handlePumpFunLog :: "monitor \<Rightarrow> log_params option \<Rightarrow> int \<Rightarrow> monitor" where
  "handlePumpFunLog m params now =
     (if \<not> isStreaming m then m
      else case params of
        None \<Rightarrow> m
      | Some p \<Rightarrow>
          if p_signature p \<in> processedSignatures m then m
          else if hasTokenCreation (p_logs p)
          then
            (let m1 = bump_detected
                        (m\<lparr>processedSignatures := insert (p_signature p) (processedSignatures m)\<rparr>)
             in case p_slot p of
                  None \<Rightarrow> m1
                | Some sl \<Rightarrow>
                    (let tokenEvent = \<lparr>signature = p_signature p, slot = sl, logs = [],
                                       detectedAt = now\<rparr>
                     in if length (tokenQueue m1) < maxQueueSize m1
                        then m1\<lparr>tokenQueue := tokenQueue m1 @ [tokenEvent],
                                stats := (stats m1)\<lparr>stats_queued := stats_queued (stats m1) + 1\<rparr>\<rparr>
                        else m1\<lparr>stats := (stats m1)\<lparr>stats_skipped := stats_skipped (stats m1) + 1\<rparr>\<rparr>))
          else m)"

section \<open>Invariants and concrete inputs\<close>

text \<open>The two invariants of a monitor: the queue bound and the single-flight discipline.\<close>

definition queue_inv :: "monitor \<Rightarrow> bool" where
  "queue_inv m = (length (tokenQueue m) \<le> maxQueueSize m)"

definition flight_inv :: "monitor \<Rightarrow> bool" where
  "flight_inv m = (length (inFlight m) \<le> 1 \<and> (isAnalyzing m = (inFlight m \<noteq> [])))"

text \<open>The running state of \<open>assessHolderRisks\<close> never holds a score above 100.\<close>

definition capped :: "string list \<times> string list \<times> int \<Rightarrow> bool" where
  "capped r = (snd (snd r) \<le> 100)"

text \<open>
  A token whose authorities are both revoked, owned by the SPL token program, with an
  ordinary supply; the Jupiter endpoints are up, have a buy quote for it and answer the
  sell quote with an empty body.
\<close>

definition scenario3_calls :: honeypot_calls where
  "scenario3_calls =
     \<lparr>authority_mintInfo = Inr \<lparr>mintAuthority = None, freezeAuthority = None, decimals = 6\<rparr>,
      program_accountInfo =
        Inr (Some \<lparr>owner = ''TokenkegQfeZyiNwAJbNbGKPFXCWuBvf9Ss623VQ5DA'', executable = False\<rparr>),
      supply_supply = Inr \<lparr>totalSupply = 1000000\<rparr>,
      supply_mintInfo = Inr \<lparr>mintAuthority = None, freezeAuthority = None, decimals = 6\<rparr>,
      connectivity_response = Inr (),
      buy_response =
        Inr (Some \<lparr>outAmount = Some ''5000'', priceImpactPct = Some 0.1, routePlan = Some 2\<rparr>),
      sell_response = Inr None\<rparr>"


text \<open>All four optional checks switched on.\<close>

definition all_checks :: options where
  "all_checks =
     \<lparr>includeMetadata = True, includeHolderAnalysis = True,
      includeHoneypotDetection = True, includeMarketData = True\<rparr>"

text \<open>
  A token with an active freeze authority, owned by a program that is not a token program,
  whose single holder has 70 percent of the supply; only the holder analysis is switched on.
\<close>

definition scenario2_options :: options where
  "scenario2_options =
     \<lparr>includeMetadata = False, includeHolderAnalysis = True,
      includeHoneypotDetection = False, includeMarketData = False\<rparr>"

definition scenario2_holders :: "holder list" where
  "scenario2_holders = [\<lparr>percentage = 70, holder_type = ''WALLET''\<rparr>]"

definition scenario2_calls :: collaborators where
  "scenario2_calls =
     \<lparr>basic_mintInfo =
        Inr \<lparr>mintAuthority = None, freezeAuthority = Some ''FreezeKey'', decimals = 6\<rparr>,
      basic_supply = Inr \<lparr>totalSupply = 1000000\<rparr>,
      auth_mintInfo =
        Inr \<lparr>mintAuthority = None, freezeAuthority = Some ''FreezeKey'', decimals = 6\<rparr>,
      owner_accountInfo = Inr (Some \<lparr>owner = ''CustomProgram'', executable = False\<rparr>),
      metadata_call = TimedOut,
      holders_call =
        Returned (assessHolderRisks (calculateConcentration scenario2_holders) scenario2_holders),
      honeypot_call = TimedOut,
      market_call = TimedOut\<rparr>"

text \<open>Three mandatory checks without any finding, and the four optional checks all timed out.\<close>

definition three_clean :: checks where
  "three_clean =
     [(''basicInfo'', \<lparr>issues = [], warnings = [], score = Some 100, skipped = False\<rparr>),
      (''authorities'', \<lparr>issues = [], warnings = [], score = Some 100, skipped = False\<rparr>),
      (''programOwnership'', \<lparr>issues = [], warnings = [], score = Some 100, skipped = False\<rparr>)]"

definition all_timed_out :: checks where
  "all_timed_out =
     [(''metadata'', analyzeMetadataWithTimeout TimedOut),
      (''holders'', analyzeHoldersWithTimeout TimedOut),
      (''honeypot'', runHoneypotDetection TimedOut),
      (''marketData'', analyzeMarketData TimedOut)]"

text \<open>Notifications of token creations, and three input sequences for a monitor.\<close>

definition creation_logs :: "string list" where
  "creation_logs = [''Program log: Instruction: InitializeMint2'']"

definition detection :: "string \<Rightarrow> log_params" where
  "detection sig = \<lparr>p_signature = sig, p_logs = creation_logs, p_slot = Some 1\<rparr>"

definition notify :: "string \<Rightarrow> int \<Rightarrow> input" where
  "notify sig now = Message (LogsNotification (Some (detection sig))) now"

definition six_detections :: "input list" where
  "six_detections =
     [notify ''sig1'' 1000, notify ''sig2'' 2000, notify ''sig3'' 3000,
      notify ''sig4'' 4000, notify ''sig5'' 5000, notify ''sig6'' 6000]"

definition replayed :: "input list" where
  "replayed =
     [notify ''sigA'' 1000, notify ''sigA'' 2000, Tick 30000, notify ''sigA'' 31000,
      notify ''sigB'' 32000, Settled True, notify ''sigA'' 33000]"

definition two_analyses :: "input list" where
  "two_analyses =
     [notify ''sig1'' 1000, Tick 30000, notify ''sig2'' 31000, Tick 60000, Settled False,
      Tick 70000]"

definition two_queued :: monitor where
  "two_queued = comprehensive_run [notify ''sig1'' 1000, notify ''sig2'' 2000]"

definition enhanced_full :: monitor where
  "enhanced_full =
     EnhancedPumpFunMonitor
       \<lparr>tokenQueue := replicate 100 \<lparr>signature = ''old'', slot = 1, logs = [], detectedAt = 0\<rparr>\<rparr>"

section \<open>Properties of the aggregation\<close>

lemma Math_round_bounds:
  assumes "0 \<le> x" "x \<le> 100"
  shows "0 \<le> Math_round x \<and> Math_round x \<le> 100"
proof -
  have "0 \<le> x + 1 / 2" "x + 1 / 2 < 101" using assms by simp_all
  then show ?thesis unfolding Math_round_def by (simp add: floor_less_iff le_floor_iff)
qed

lemma Math_round_mono: "x \<le> y \<Longrightarrow> Math_round x \<le> Math_round y"
  unfolding Math_round_def by (simp add: floor_mono)

lemma weight_of_pos: "0 < weight_of n"
  by (auto simp: weight_of_def weights_def split: option.splits if_splits)

lemma accumulate_step:
  "accumulate (ts, tw) e =
     (if counted e then (ts + weighted_score e, tw + weight_of (fst e)) else (ts, tw))"
  by (cases e) (auto simp: accumulate_def counted_def weighted_score_def split: option.splits)

lemma foldl_accumulate:
  "foldl accumulate (ts, tw) cs =
     (ts + sum_list (map weighted_score (filter counted cs)),
      tw + sum_list (map (\<lambda>e. weight_of (fst e)) (filter counted cs)))"
  by (induction cs arbitrary: ts tw) (simp_all add: accumulate_step)

lemma total_weight_nonneg: "0 \<le> sum_list (map (\<lambda>e. weight_of (fst e)) es)"
  by (induction es) (simp_all add: less_imp_le [OF weight_of_pos])

lemma total_weight_pos:
  "es \<noteq> [] \<Longrightarrow> 0 < sum_list (map (\<lambda>e. weight_of (fst e)) es)"
  by (cases es) (simp_all add: add_pos_nonneg weight_of_pos total_weight_nonneg)

lemma weighted_sum_bounds:
  assumes "\<forall>e \<in> set es. counted e \<and> score_in_range (snd e)"
  shows "0 \<le> sum_list (map weighted_score es) \<and>
         sum_list (map weighted_score es) \<le> 100 * sum_list (map (\<lambda>e. weight_of (fst e)) es)"
  using assms
proof (induction es)
  case Nil
  show ?case by simp
next
  case (Cons e es)
  from Cons.prems obtain s where s: "score (snd e) = Some s" "0 \<le> s" "s \<le> 100"
    by (auto simp: counted_def score_in_range_def split: option.splits)
  have w: "0 < weight_of (fst e)" by (rule weight_of_pos)
  have ws: "weighted_score e = s * weight_of (fst e)"
    by (simp add: weighted_score_def s)
  have lo: "0 \<le> weighted_score e" using s w by (simp add: ws)
  have hi: "weighted_score e \<le> 100 * weight_of (fst e)"
    using s w by (simp add: ws mult_right_mono)
  from Cons have ih: "0 \<le> sum_list (map weighted_score es)"
    "sum_list (map weighted_score es) \<le> 100 * sum_list (map (\<lambda>e. weight_of (fst e)) es)"
    by simp_all
  show ?case using lo hi ih by simp
qed

lemma ratio_bounds:
  fixes n d :: int
  assumes "0 < d" "0 \<le> n" "n \<le> 100 * d"
  shows "0 \<le> real_of_int n / real_of_int d \<and> real_of_int n / real_of_int d \<le> 100"
proof
  show "0 \<le> real_of_int n / real_of_int d" using assms by simp
  have "real_of_int n \<le> 100 * real_of_int d"
    using assms(3) by (metis of_int_le_iff of_int_mult of_int_numeral)
  then show "real_of_int n / real_of_int d \<le> 100"
    using assms(1) by (simp add: pos_divide_le_eq)
qed

lemma calculateRiskScore_sums:
  "calculateRiskScore cs =
     (if 0 < sum_list (map (\<lambda>e. weight_of (fst e)) (filter counted cs))
      then Math_round (real_of_int (sum_list (map weighted_score (filter counted cs))) /
                       real_of_int (sum_list (map (\<lambda>e. weight_of (fst e)) (filter counted cs))))
      else 50)"
  by (simp add: calculateRiskScore_def foldl_accumulate)

lemma calculateRiskScore_none_counted:
  "filter counted cs = [] \<Longrightarrow> calculateRiskScore cs = 50"
  by (simp add: calculateRiskScore_sums)

lemma calculateRiskScore_bounds:
  assumes "\<forall>e \<in> set cs. score_in_range (snd e)"
  shows "0 \<le> calculateRiskScore cs \<and> calculateRiskScore cs \<le> 100"
proof (cases "filter counted cs = []")
  case True
  then show ?thesis by (simp add: calculateRiskScore_none_counted)
next
  case False
  let ?es = "filter counted cs"
  let ?S = "sum_list (map weighted_score ?es)"
  let ?W = "sum_list (map (\<lambda>e. weight_of (fst e)) ?es)"
  have W: "0 < ?W" using False by (rule total_weight_pos)
  have "\<forall>e \<in> set ?es. counted e \<and> score_in_range (snd e)" using assms by simp
  then have S: "0 \<le> ?S" "?S \<le> 100 * ?W" using weighted_sum_bounds by blast+
  have "0 \<le> real_of_int ?S / real_of_int ?W \<and> real_of_int ?S / real_of_int ?W \<le> 100"
    using W S by (rule ratio_bounds)
  then have "0 \<le> Math_round (real_of_int ?S / real_of_int ?W) \<and>
             Math_round (real_of_int ?S / real_of_int ?W) \<le> 100"
    using Math_round_bounds by blast
  then show ?thesis using W by (simp add: calculateRiskScore_sums)
qed

lemma skipped_entry_ignored:
  "calculateRiskScore (cs1 @ [(n, r\<lparr>skipped := True\<rparr>)] @ cs2) = calculateRiskScore (cs1 @ cs2)"
  by (simp add: calculateRiskScore_sums counted_def)

lemma skip_differs_from_default:
  "calculateRiskScore (three_clean @ [(''holders'', analyzeHoldersWithTimeout TimedOut)]) = 100 \<and>
   calculateRiskScore
     (three_clean @ [(''holders'', (analyzeHoldersWithTimeout TimedOut)\<lparr>skipped := False\<rparr>)]) = 95"
  by (simp add: three_clean_def analyzeHoldersWithTimeout_def calculateRiskScore_def accumulate_def
        weight_of_def weights_def Math_round_def)

text \<open>
  Every result that the checks of \<open>analyzeToken\<close> produce has its score between 0 and
  100: the range that the bound below asks of a check result is the range of the code.
\<close>

lemma analyzeBasicInfo_in_range: "score_in_range (analyzeBasicInfo a b)"
  by (cases a; cases b)
     (simp_all add: score_in_range_def analyzeBasicInfo_def failed_check_def)

lemma analyzeAuthorities_in_range: "score_in_range (analyzeAuthorities a)"
proof (cases a)
  case (Inl msg)
  then show ?thesis by (simp add: score_in_range_def analyzeAuthorities_def failed_check_def)
next
  case (Inr mintInfo)
  define n where "n = int (length ((if truthy (mintAuthority mintInfo)
                     then [''MINT AUTHORITY NOT REVOKED - Supply can be inflated!''] else []) @
                    (if truthy (freezeAuthority mintInfo)
                     then [''FREEZE AUTHORITY NOT REVOKED - Accounts can be frozen!''] else [])))"
  have n: "0 \<le> n" by (simp add: n_def)
  have "score (analyzeAuthorities a) = Some (max 0 (100 - n * 40 - 0 * 10))"
    unfolding analyzeAuthorities_def Inr n_def Let_def by simp
  then show ?thesis using n by (simp add: score_in_range_def)
qed

lemma analyzeProgramOwnership_in_range: "score_in_range (analyzeProgramOwnership c)"
proof (cases c)
  case (Inl msg)
  then show ?thesis
    by (simp add: score_in_range_def analyzeProgramOwnership_def failed_check_def)
next
  case (Inr info)
  then show ?thesis
    by (cases info)
       (simp_all add: score_in_range_def analyzeProgramOwnership_def failed_check_def Let_def)
qed

lemma analyzeMetadataWithTimeout_in_range: "score_in_range (analyzeMetadataWithTimeout d)"
  by (cases d)
     (simp_all add: score_in_range_def analyzeMetadataWithTimeout_def failed_check_def Let_def)

lemma analyzeMarketData_in_range: "score_in_range (analyzeMarketData e)"
  by (cases e) (simp_all add: score_in_range_def analyzeMarketData_def)

lemma timeouts_and_throws_in_range:
  "score_in_range (analyzeHoldersWithTimeout TimedOut)"
  "score_in_range (analyzeHoldersWithTimeout (Threw msg))"
  "score_in_range (runHoneypotDetection TimedOut)"
  "score_in_range (runHoneypotDetection (Threw msg))"
  by (simp_all add: score_in_range_def analyzeHoldersWithTimeout_def runHoneypotDetection_def
        failed_check_def)

lemma push_capped:
  "capped r \<Longrightarrow> 0 \<le> k \<Longrightarrow> capped (push_issue msg k r)"
  "capped r \<Longrightarrow> 0 \<le> k \<Longrightarrow> capped (push_warning msg k r)"
  by (cases r; simp add: capped_def push_issue_def push_warning_def)+

lemma assessHolderRisks_in_range: "score_in_range (assessHolderRisks c holders)"
proof -
  define r1 where "r1 = (if top1Percentage c > 50
                then push_issue ''Single holder controls majority of supply'' 40 ([], [], 100)
                else if top1Percentage c > 30
                then push_warning ''Top holder controls a large share of supply'' 20 ([], [], 100)
                else ([], [], 100))"
  define r2 where "r2 = (if top10Percentage c > 80
                then push_issue ''Top 10 holders control most of supply'' 30 r1
                else if top10Percentage c > 60
                then push_warning ''Top 10 holders control a large share of supply'' 15 r1
                else r1)"
  define r3 where "r3 = (if herfindahlIndex c > 0.25
                then push_issue ''Extremely concentrated holder distribution'' 25 r2
                else if herfindahlIndex c > 0.15
                then push_warning ''Highly concentrated holder distribution'' 15 r2
                else r2)"
  define r4 where "r4 = (if length (filter (\<lambda>h. holder_type h = ''PROGRAM'') holders) > 0
                then push_warning ''program-controlled holder accounts detected'' 10 r3
                else r3)"
  have w0: "capped ([], [], 100)" by (simp add: capped_def)
  have w1: "capped r1" unfolding r1_def using w0 by (simp add: push_capped)
  have w2: "capped r2" unfolding r2_def using w1 by (simp add: push_capped)
  have w3: "capped r3" unfolding r3_def using w2 by (simp add: push_capped)
  have w4: "capped r4" unfolding r4_def using w3 by (simp add: push_capped)
  have "assessHolderRisks c holders =
          (case r4 of (is, ws, s) \<Rightarrow>
             \<lparr>issues = is, warnings = ws, score = Some (max 0 s), skipped = False\<rparr>)"
    unfolding assessHolderRisks_def Let_def r4_def r3_def r2_def r1_def by (rule refl)
  then show ?thesis using w4
    by (cases r4) (simp add: score_in_range_def capped_def)
qed

text \<open>
  C3. Whatever the checks are, as long as every numeric score lies between 0 and 100 (the
  range of a check result), the aggregated \<open>riskScore\<close> is an integer between 0 and 100.
  When every check is skipped no weight is counted, the quotient is never formed (so no
  0/0, which would be NaN), and the result is the fallback 50.
\<close>

theorem C3_riskScore_range:
  assumes "\<forall>e \<in> set cs. score_in_range (snd e)"
  shows "0 \<le> calculateRiskScore cs \<and> calculateRiskScore cs \<le> 100 \<and>
         ((\<forall>e \<in> set cs. skipped (snd e)) \<longrightarrow> calculateRiskScore cs = 50)"
proof -
  have "calculateRiskScore cs = 50" if "\<forall>e \<in> set cs. skipped (snd e)"
  proof -
    have "filter counted cs = []" using that by (auto simp: counted_def filter_empty_conv)
    then show ?thesis by (rule calculateRiskScore_none_counted)
  qed
  then show ?thesis using calculateRiskScore_bounds [OF assms] by blast
qed

text \<open>The four optional checks, all timed out: every result is skipped, the score is 50.\<close>

theorem C3_riskScore_range_witness:
  "list_all (\<lambda>e. score_in_range (snd e) \<and> skipped (snd e)) all_timed_out \<and>
   calculateRiskScore all_timed_out = 50 \<and>
   0 \<le> calculateRiskScore all_timed_out \<and> calculateRiskScore all_timed_out \<le> 100"
proof -
  have h: "list_all (\<lambda>e. score_in_range (snd e) \<and> skipped (snd e)) all_timed_out"
    by (simp add: all_timed_out_def score_in_range_def analyzeMetadataWithTimeout_def
          analyzeHoldersWithTimeout_def runHoneypotDetection_def analyzeMarketData_def)
  then have r: "\<forall>e \<in> set all_timed_out. score_in_range (snd e)"
    and s: "\<forall>e \<in> set all_timed_out. skipped (snd e)"
    by (simp_all add: list_all_iff)
  show ?thesis using h C3_riskScore_range [OF r] s by blast
qed

text \<open>
  C4. \<open>calculateRiskScore\<close> is \<open>Math.round\<close> of the sum of score times weight divided by
  the sum of the weights, both sums taken over exactly the checks that carry a numeric
  score and are not skipped (50 when there is none). A skipped check can therefore be
  deleted from the list without changing the result, and skipping shows in the result:
  with the three mandatory checks at 100, a timed-out holder check gives 100, while the
  same result with its neutral score 70 reported as not skipped gives 95.
\<close>

theorem C4_skip_aware_normalisation:
  "calculateRiskScore cs =
     (if 0 < sum_list (map (\<lambda>e. weight_of (fst e)) (filter counted cs))
      then Math_round (real_of_int (sum_list (map weighted_score (filter counted cs))) /
                       real_of_int (sum_list (map (\<lambda>e. weight_of (fst e)) (filter counted cs))))
      else 50) \<and>
   calculateRiskScore (cs1 @ [(n, r\<lparr>skipped := True\<rparr>)] @ cs2) = calculateRiskScore (cs1 @ cs2) \<and>
   (\<exists>others. calculateRiskScore (others @ [(''holders'', analyzeHoldersWithTimeout TimedOut)]) \<noteq>
      calculateRiskScore
        (others @ [(''holders'', (analyzeHoldersWithTimeout TimedOut)\<lparr>skipped := False\<rparr>)]))"
proof -
  have "calculateRiskScore (three_clean @ [(''holders'', analyzeHoldersWithTimeout TimedOut)]) \<noteq>
      calculateRiskScore
        (three_clean @ [(''holders'', (analyzeHoldersWithTimeout TimedOut)\<lparr>skipped := False\<rparr>)])"
    using skip_differs_from_default by simp
  then show ?thesis
    using calculateRiskScore_sums [of cs] skipped_entry_ignored [of cs1 n r cs2] by blast
qed

section \<open>Properties of the analysis\<close>

lemmas analyzer_eval = analyzeToken_def analyzeBasicInfo_def analyzeAuthorities_def
  analyzeProgramOwnership_def analyzeMetadataWithTimeout_def analyzeHoldersWithTimeout_def
  runHoneypotDetection_def analyzeMarketData_def failed_check_def truthy_def
  standardPrograms_def assessHolderRisks_def calculateConcentration_def push_issue_def
  push_warning_def calculateRiskScore_def accumulate_def weight_of_def weights_def
  getSafetyLevel_def getSafetyLevel_validator_def Math_round_def

text \<open>
  C2. The scenario: freeze authority active, owner not a token program, one holder with
  70 percent. The per-check scores count safety (100 is clean): authorities 60, program
  ownership 20, holders 20, basic info 100. Their weighted mean, which \<open>analyzeToken\<close>
  stores as \<open>riskScore\<close>, is 48, below 80; the analyser's own \<open>getSafetyLevel\<close> calls it
  RISKY, and the validator's step function, which reads the same number as a risk (80 and
  more is extremely dangerous, below 20 appears safe), calls it MODERATE RISK. The two
  readings contradict each other: three clean checks give 100, SAFE for the analyser and
  EXTREMELY DANGEROUS for the validator.
\<close>

theorem C2_scenario2_evaluation:
  "(case analyzeToken (Some scenario2_options) scenario2_calls of
      Inl e \<Rightarrow> False
    | Inr a \<Rightarrow>
        map (\<lambda>e. (fst e, score (snd e))) (checks a) =
          [(''basicInfo'', Some 100), (''authorities'', Some 60),
           (''programOwnership'', Some 20), (''holders'', Some 20)] \<and>
        riskScore a = 48 \<and> \<not> 80 \<le> riskScore a \<and>
        safetyLevel a = ''RISKY'' \<and>
        getSafetyLevel_validator (riskScore a) = ''MODERATE RISK'') \<and>
   calculateRiskScore three_clean = 100 \<and>
   getSafetyLevel 100 = ''SAFE'' \<and>
   getSafetyLevel_validator 100 = ''EXTREMELY DANGEROUS'' \<and>
   getSafetyLevel_validator 19 = ''APPEARS SAFE''"
  by (simp add: scenario2_options_def scenario2_calls_def scenario2_holders_def three_clean_def
        analyzer_eval Let_def)


section \<open>Properties of the honeypot detector\<close>

lemmas hp_eval = detectHoneypot_def analyzeAuthorities_hp_def analyzeProgram_def
  analyzeSupplyMetrics_def runTradingSimulation_def simulateSwap_def getSwapQuote_def
  testConnectivity_def call_rateLimit_def JupiterService_def swap_report_def
  calculateHoneypotProbability_def accumulate_hp_def weight_of_hp_def weights_hp_def
  generateVerdict_def sub_test_def truthy_def standardPrograms_def Math_round_def
  no_buy_route_def simulation_failed_def impact_def

text \<open>
  In the exported service object the call of \<open>rateLimit\<close> throws, so the connectivity
  test answers false, a quote request throws and a price request gives \<open>null\<close>, whatever
  the endpoints would answer.
\<close>

lemma call_rateLimit_throws:
  "call_rateLimit JupiterService = Inl ''this.rateLimit is not a function''"
  by (simp add: call_rateLimit_def JupiterService_def)

lemma testConnectivity_false: "testConnectivity JupiterService response = False"
  by (simp add: testConnectivity_def call_rateLimit_throws)

lemma getSwapQuote_throws:
  "getSwapQuote JupiterService response = Inl ''this.rateLimit is not a function''"
  by (simp add: getSwapQuote_def call_rateLimit_throws)


lemma trading_simulation_skipped:
  "runTradingSimulation JupiterService connectivity buy sell =
     \<lparr>test_issues = [], test_riskScore = Some 20, test_severity = ''LOW'',
      simulation = Some ''SKIPPED'', sim_canBuy = None, sim_canSell = None\<rparr>"
  by (simp add: runTradingSimulation_def testConnectivity_false)

lemma analyzeAuthorities_hp_risk:
  "\<exists>r. test_riskScore (analyzeAuthorities_hp c) = Some r \<and> 0 \<le> r \<and> r \<le> 90"
  by (cases c) (simp_all add: analyzeAuthorities_hp_def sub_test_def Let_def)

lemma analyzeProgram_risk:
  "\<exists>r. test_riskScore (analyzeProgram c) = Some r \<and> 0 \<le> r \<and> r \<le> 90"
  by (cases c) (simp_all add: analyzeProgram_def sub_test_def Let_def split: option.splits)

lemma analyzeSupplyMetrics_risk:
  "\<exists>r. test_riskScore (analyzeSupplyMetrics c d) = Some r \<and> 0 \<le> r \<and> r \<le> 90"
  by (cases c; cases d) (simp_all add: analyzeSupplyMetrics_def sub_test_def Let_def)

lemma overall_four_tests:
  assumes "test_riskScore ta = Some a" "test_riskScore tp = Some p"
    "test_riskScore ts = Some s" "test_riskScore tt = Some t"
  shows "overall (calculateHoneypotProbability
            [(''authorityAnalysis'', ta), (''programAnalysis'', tp),
             (''supplyAnalysis'', ts), (''tradingSimulation'', tt)]) =
         max 0 (min 100 (Math_round (real_of_int a * 0.3 + real_of_int p * 0.2
                                     + real_of_int s * 0.15 + real_of_int t * 0.35)))"
  using assms
  by (simp add: calculateHoneypotProbability_def accumulate_hp_def weight_of_hp_def
        weights_hp_def Let_def)

text \<open>
  With the trading simulation at its skipped score 20, the detector's overall probability
  is at most the rounded \<open>0.3 * 90 + 0.2 * 90 + 0.15 * 90 + 0.35 * 20 = 65.5\<close>.
\<close>

lemma detector_overall_bounds:
  "0 \<le> overall (honeypotProbability (detectHoneypot calls)) \<and>
   overall (honeypotProbability (detectHoneypot calls)) \<le> 66"
proof -
  obtain a where a: "test_riskScore (analyzeAuthorities_hp (authority_mintInfo calls)) = Some a"
    "0 \<le> a" "a \<le> 90"
    using analyzeAuthorities_hp_risk by blast
  obtain p where p: "test_riskScore (analyzeProgram (program_accountInfo calls)) = Some p"
    "0 \<le> p" "p \<le> 90"
    using analyzeProgram_risk by blast
  obtain s where s:
    "test_riskScore (analyzeSupplyMetrics (supply_supply calls) (supply_mintInfo calls)) = Some s"
    "0 \<le> s" "s \<le> 90"
    using analyzeSupplyMetrics_risk by blast
  let ?tt = "runTradingSimulation JupiterService (connectivity_response calls)
               (buy_response calls) (sell_response calls)"
  have t: "test_riskScore ?tt = Some 20"
    by (simp add: trading_simulation_skipped)
  let ?x = "real_of_int a * 0.3 + real_of_int p * 0.2 + real_of_int s * 0.15
            + real_of_int 20 * 0.35"
  have ov: "overall (honeypotProbability (detectHoneypot calls)) = max 0 (min 100 (Math_round ?x))"
    unfolding detectHoneypot_def Let_def
    using overall_four_tests [OF a(1) p(1) s(1) t] by simp
  have "?x \<le> 131 / 2" using a(3) p(3) s(3) by simp
  then have "Math_round ?x \<le> Math_round (131 / 2)" by (rule Math_round_mono)
  moreover have "Math_round (131 / 2) = 66" by (simp add: Math_round_def)
  ultimately have "Math_round ?x \<le> 66" by simp
  then show ?thesis by (simp add: ov)
qed

text \<open>The detector's probability is clamped, so the honeypot check scores in range as well.\<close>

lemma detector_check_in_range:
  "score_in_range (runHoneypotDetection (Returned (detectHoneypot calls)))"
  using detector_overall_bounds [of calls]
  by (simp add: score_in_range_def runHoneypotDetection_def Let_def)

text \<open>
  The honeypot check adds an issue when the overall probability exceeds 70 or when the
  detector's result has a test named \<open>swapSimulation\<close> that cannot sell. The detector
  names its test \<open>tradingSimulation\<close> and its probability stays below 70, so the check
  never has an issue.
\<close>

lemma detector_check_no_issue:
  "issues (runHoneypotDetection (Returned (detectHoneypot calls))) = []"
proof -
  have "map_of (tests (detectHoneypot calls)) ''swapSimulation'' = None"
    by (simp add: detectHoneypot_def Let_def)
  then show ?thesis
    using detector_overall_bounds [of calls]
    by (simp add: runHoneypotDetection_def Let_def)
qed

text \<open>
  What the methods do with a failed sell when the call of \<open>rateLimit\<close> goes through (a
  service object whose property holds the method): the swap simulation reports that the
  token can be bought and cannot be sold, and the trading simulation scores that 95,
  CRITICAL. \<open>calculateHoneypotProbability\<close> has no rule for that result: it takes the
  weighted mean, in which a trading score of 95 beside three clean sub-tests gives 33.
\<close>

lemma sell_failure_when_rateLimit_callable:
  "runTradingSimulation \<lparr>rateLimit = Method\<rparr> (Inr ()) (buy_response scenario3_calls)
       (sell_response scenario3_calls) =
     \<lparr>test_issues = [''CANNOT_SELL_TOKEN'', ''CANNOT_SELL''], test_riskScore = Some 95,
      test_severity = ''CRITICAL'', simulation = Some ''COMPLETED'',
      sim_canBuy = Some True, sim_canSell = Some False\<rparr>"
  by (simp add: scenario3_calls_def runTradingSimulation_def testConnectivity_def
        simulateSwap_def getSwapQuote_def call_rateLimit_def swap_report_def truthy_def Let_def)

lemma weighted_mean_has_no_override:
  "overall (calculateHoneypotProbability
      [(''authorityAnalysis'', sub_test [] 0 ''LOW''), (''programAnalysis'', sub_test [] 0 ''LOW''),
       (''supplyAnalysis'', sub_test [] 0 ''LOW''),
       (''tradingSimulation'', sub_test [''CANNOT_SELL_TOKEN'', ''CANNOT_SELL''] 95 ''CRITICAL'')]) = 33"
  by (simp add: calculateHoneypotProbability_def accumulate_hp_def weight_of_hp_def
        weights_hp_def sub_test_def Math_round_def Let_def)

text \<open>
  C1. The claim asks for an overall score of at least 90 and the top verdict whenever the
  buy quote succeeds and the sell quote fails. In the program the trading simulation never
  gets that far: the exported service object throws on \<open>this.rateLimit()\<close>, so
  \<open>testConnectivity\<close> answers false and \<open>getSwapQuote\<close> throws whatever the endpoints
  answer, and in every run of \<open>detectHoneypot\<close> the trading simulation is SKIPPED with
  risk score 20. The overall probability is then at most 66 and the verdict is never
  CONFIRMED_HONEYPOT. For the token of scenario 3 (authorities revoked, standard program,
  ordinary supply, a buy quote and no sell quote at the endpoints) the overall probability
  is 7, the verdict LOW_RISK, and the honeypot check of the token analyser has no issue
  and scores 93.
\<close>

theorem C1_trading_simulation_never_runs:
  "testConnectivity JupiterService connectivity = False \<and>
   getSwapQuote JupiterService response = Inl ''this.rateLimit is not a function'' \<and>
   map_of (tests (detectHoneypot calls)) ''tradingSimulation'' =
     Some \<lparr>test_issues = [], test_riskScore = Some 20, test_severity = ''LOW'',
           simulation = Some ''SKIPPED'', sim_canBuy = None, sim_canSell = None\<rparr> \<and>
   overall (honeypotProbability (detectHoneypot calls)) \<le> 66 \<and>
   verdict (detectHoneypot calls) \<noteq> ''CONFIRMED_HONEYPOT'' \<and>
   overall (honeypotProbability (detectHoneypot scenario3_calls)) = 7 \<and>
   \<not> 90 \<le> overall (honeypotProbability (detectHoneypot scenario3_calls)) \<and>
   verdict (detectHoneypot scenario3_calls) = ''LOW_RISK'' \<and>
   runHoneypotDetection (Returned (detectHoneypot scenario3_calls)) =
     \<lparr>issues = [], warnings = [], score = Some 93, skipped = False\<rparr>"
proof -
  have t: "map_of (tests (detectHoneypot calls)) ''tradingSimulation'' =
     Some \<lparr>test_issues = [], test_riskScore = Some 20, test_severity = ''LOW'',
           simulation = Some ''SKIPPED'', sim_canBuy = None, sim_canSell = None\<rparr>"
    by (simp add: detectHoneypot_def Let_def trading_simulation_skipped)
  have ov: "overall (honeypotProbability (detectHoneypot calls)) \<le> 66"
    using detector_overall_bounds [of calls] by simp
  have v: "verdict (detectHoneypot calls) \<noteq> ''CONFIRMED_HONEYPOT''"
    using ov by (simp add: detectHoneypot_def Let_def generateVerdict_def)
  have s3: "overall (honeypotProbability (detectHoneypot scenario3_calls)) = 7"
    by (simp add: scenario3_calls_def hp_eval Let_def)
  have v3: "verdict (detectHoneypot scenario3_calls) = ''LOW_RISK''"
    by (simp add: scenario3_calls_def hp_eval Let_def)
  have c3: "runHoneypotDetection (Returned (detectHoneypot scenario3_calls)) =
     \<lparr>issues = [], warnings = [], score = Some 93, skipped = False\<rparr>"
    using s3 detector_check_no_issue [of scenario3_calls]
    by (simp add: runHoneypotDetection_def Let_def)
  show ?thesis
    using testConnectivity_false [of connectivity] getSwapQuote_throws [of response]
      t ov v s3 v3 c3 by simp
qed

section \<open>Properties of the guarded checks\<close>
















section \<open>Properties of the monitors\<close>

lemmas comprehensive_defs = comprehensive_step_def handleMessage_def processTokenCreation_def
  startComprehensiveWorker_def comprehensiveWorker_settled_def bump_detected_def

lemmas optimized_defs = optimized_step_def handleMessage_optimized_def processLogEvent_def
  startOptimizedWorker_def optimizedWorker_settled_def bump_detected_def

lemma comprehensive_step_maxQueueSize:
  "maxQueueSize (comprehensive_step m i) = maxQueueSize m"
  by (auto simp: comprehensive_defs Let_def
           split: input.splits message.splits option.splits list.splits)

lemma comprehensive_step_queue_inv:
  "queue_inv m \<Longrightarrow> queue_inv (comprehensive_step m i)"
  by (auto simp: queue_inv_def comprehensive_defs Let_def
           split: input.splits message.splits option.splits list.splits)

lemma comprehensive_step_flight_inv:
  "flight_inv m \<Longrightarrow> flight_inv (comprehensive_step m i)"
  by (auto simp: flight_inv_def comprehensive_defs Let_def
           split: input.splits message.splits option.splits list.splits)

lemma optimized_step_maxQueueSize:
  "maxQueueSize (optimized_step m i) = maxQueueSize m"
  by (auto simp: optimized_defs Let_def
           split: input.splits message.splits option.splits list.splits)

lemma optimized_step_queue_inv:
  "queue_inv m \<Longrightarrow> queue_inv (optimized_step m i)"
  by (auto simp: queue_inv_def optimized_defs Let_def
           split: input.splits message.splits option.splits list.splits)

lemma optimized_step_flight_inv:
  "flight_inv m \<Longrightarrow> flight_inv (optimized_step m i)"
  by (auto simp: flight_inv_def optimized_defs Let_def
           split: input.splits message.splits option.splits list.splits)

lemma comprehensive_run_inv:
  "queue_inv (comprehensive_run inputs) \<and> flight_inv (comprehensive_run inputs) \<and>
   maxQueueSize (comprehensive_run inputs) = 6"
proof (induction inputs rule: rev_induct)
  case Nil
  show ?case
    by (simp add: comprehensive_run_def ComprehensivePumpMonitor_def queue_inv_def flight_inv_def)
next
  case (snoc i inputs)
  then show ?case
    by (simp add: comprehensive_run_def comprehensive_step_queue_inv
          comprehensive_step_flight_inv comprehensive_step_maxQueueSize)
qed

lemma optimized_run_inv:
  "queue_inv (optimized_run inputs) \<and> flight_inv (optimized_run inputs) \<and>
   maxQueueSize (optimized_run inputs) = 5"
proof (induction inputs rule: rev_induct)
  case Nil
  show ?case
    by (simp add: optimized_run_def OptimizedPumpMonitor_def queue_inv_def flight_inv_def)
next
  case (snoc i inputs)
  then show ?case
    by (simp add: optimized_run_def optimized_step_queue_inv
          optimized_step_flight_inv optimized_step_maxQueueSize)
qed

lemma full_queue_rejects:
  assumes "maxQueueSize m \<le> length (tokenQueue m)"
  shows "tokenQueue (processTokenCreation m p now) = tokenQueue m"
    and "tokenQueue (processLogEvent m p now) = tokenQueue m"
  using assms
  by (auto simp: processTokenCreation_def processLogEvent_def bump_detected_def Let_def
           split: option.splits)

lemma empty_queue_idle:
  assumes "tokenQueue m = []"
  shows "startComprehensiveWorker m now = m" and "startOptimizedWorker m now = m"
  using assms by (simp_all add: startComprehensiveWorker_def startOptimizedWorker_def)

lemma young_event_requeued:
  assumes "tokenQueue m = ev # rest" "now - detectedAt ev < analysisDelay m"
  shows "startComprehensiveWorker m now = m" and "startOptimizedWorker m now = m"
  using assms
  by (simp_all add: startComprehensiveWorker_def startOptimizedWorker_def Let_def)

lemma handleMessage_appends:
  "\<exists>new. tokenQueue (handleMessage m msg now) = tokenQueue m @ new \<and> length new \<le> 1 \<and>
     (\<forall>e \<in> set new. signature e \<notin> processedSignatures m \<and>
                      signature e \<in> processedSignatures (handleMessage m msg now))"
  by (auto simp: handleMessage_def processTokenCreation_def bump_detected_def Let_def
           split: message.splits option.splits)

lemma handleMessage_optimized_appends:
  "\<exists>new. tokenQueue (handleMessage_optimized m msg now) = tokenQueue m @ new \<and> length new \<le> 1 \<and>
     (\<forall>e \<in> set new. signature e \<notin> processedSignatures m \<and>
                      signature e \<in> processedSignatures (handleMessage_optimized m msg now))"
  by (auto simp: handleMessage_optimized_def processLogEvent_def bump_detected_def Let_def
           split: message.splits option.splits)

lemma comprehensive_step_processed:
  "processedSignatures m \<subseteq> processedSignatures (comprehensive_step m i)"
  by (auto simp: comprehensive_defs Let_def
           split: input.splits message.splits option.splits list.splits if_splits)

lemma optimized_step_processed:
  "processedSignatures m \<subseteq> processedSignatures (optimized_step m i)"
  by (auto simp: optimized_defs Let_def
           split: input.splits message.splits option.splits list.splits if_splits)

lemma creation_logs_real: "isRealTokenCreation creation_logs"
  by (simp add: isRealTokenCreation_def creation_logs_def)

lemma creation_logs_actual: "isActualTokenCreation creation_logs"
  by (simp add: isActualTokenCreation_def creation_logs_def toLowerCase_def lower_char_def)

lemma creation_logs_has: "hasTokenCreation creation_logs"
  by (simp add: hasTokenCreation_def creation_logs_def)

lemmas run_eval = notify_def detection_def creation_logs_real creation_logs_actual
  no_stats_def Let_def

lemma six_run:
  "map signature (tokenQueue (comprehensive_run six_detections)) =
     [''sig1'', ''sig2'', ''sig3'', ''sig4'', ''sig5'', ''sig6''] \<and>
   length (tokenQueue (comprehensive_run six_detections)) = 6 \<and>
   stats (comprehensive_run six_detections) = no_stats\<lparr>stats_detected := 6\<rparr> \<and>
   maxQueueSize (comprehensive_run six_detections) = 6 \<and>
   ''sig7'' \<notin> processedSignatures (comprehensive_run six_detections)"
  by (simp add: comprehensive_run_def six_detections_def comprehensive_defs
        ComprehensivePumpMonitor_def run_eval)

text \<open>
  C6. In every state that a monitor reaches from its constructor by messages, timer
  ticks, settled analyses and streaming toggles, the queue holds at most \<open>maxQueueSize\<close>
  events (6 for the comprehensive monitor, 5 for the optimized one). A notification that
  arrives while the queue is full leaves the queue exactly as it was: nothing is evicted,
  and the handler returns. A worker cycle on an empty queue takes nothing and leaves the
  monitor as it was.
\<close>

theorem C6_queue_bounded:
  "length (tokenQueue (comprehensive_run inputs)) \<le> maxQueueSize (comprehensive_run inputs) \<and>
   maxQueueSize (comprehensive_run inputs) = 6 \<and>
   length (tokenQueue (optimized_run inputs)) \<le> maxQueueSize (optimized_run inputs) \<and>
   maxQueueSize (optimized_run inputs) = 5 \<and>
   (maxQueueSize m \<le> length (tokenQueue m) \<longrightarrow>
      tokenQueue (processTokenCreation m params now) = tokenQueue m \<and>
      tokenQueue (processLogEvent m params now) = tokenQueue m) \<and>
   (tokenQueue m = [] \<longrightarrow>
      startComprehensiveWorker m now = m \<and> startOptimizedWorker m now = m)"
  using comprehensive_run_inv [of inputs] optimized_run_inv [of inputs]
    full_queue_rejects [of m params now] empty_queue_idle [of m now]
  by (simp add: queue_inv_def)

text \<open>Six detections fill the queue of the comprehensive monitor; the seventh is rejected.\<close>

theorem C6_queue_bounded_witness:
  "length (tokenQueue (comprehensive_run six_detections)) = 6 \<and>
   tokenQueue (processTokenCreation (comprehensive_run six_detections)
                 (Some (detection ''sig7'')) 7000) =
     tokenQueue (comprehensive_run six_detections) \<and>
   startComprehensiveWorker ComprehensivePumpMonitor 8000 = ComprehensivePumpMonitor"
proof -
  have len: "length (tokenQueue (comprehensive_run six_detections)) = 6"
    using six_run by blast
  have filled: "maxQueueSize (comprehensive_run six_detections)
                \<le> length (tokenQueue (comprehensive_run six_detections))"
    using six_run len by simp
  have idle: "tokenQueue ComprehensivePumpMonitor = []"
    by (simp add: ComprehensivePumpMonitor_def)
  show ?thesis
    using len filled idle
      C6_queue_bounded [of six_detections "comprehensive_run six_detections"
        "Some (detection ''sig7'')" 7000]
      C6_queue_bounded [of six_detections ComprehensivePumpMonitor None 8000]
    by simp
qed

lemma worker_starts_only_when_idle:
  "inFlight (startComprehensiveWorker m now) \<noteq> inFlight m \<Longrightarrow>
     \<not> isAnalyzing m \<and> isAnalyzing (startComprehensiveWorker m now)"
  "inFlight (startOptimizedWorker m now) \<noteq> inFlight m \<Longrightarrow>
     \<not> isAnalyzing m \<and> isAnalyzing (startOptimizedWorker m now)"
  by (auto simp: startComprehensiveWorker_def startOptimizedWorker_def Let_def
           split: list.splits if_splits)

lemma worker_idle_while_analyzing:
  "isAnalyzing m \<Longrightarrow> startComprehensiveWorker m now = m"
  "isAnalyzing m \<Longrightarrow> startOptimizedWorker m now = m"
  by (simp_all add: startComprehensiveWorker_def startOptimizedWorker_def)

lemma settled_clears_flag:
  "inFlight m \<noteq> [] \<Longrightarrow> \<not> isAnalyzing (comprehensiveWorker_settled m ok)"
  "inFlight m \<noteq> [] \<Longrightarrow> \<not> isAnalyzing (optimizedWorker_settled m ok)"
  by (auto simp: comprehensiveWorker_settled_def optimizedWorker_settled_def Let_def
           split: list.splits)

text \<open>
  C7. In every reachable state of either monitor at most one analysis is pending, and the
  flag \<open>isAnalyzing\<close> is set exactly while one is. A worker cycle starts an analysis only
  from a state whose flag is clear, and sets the flag in doing so; while the flag is set a
  cycle does nothing; and when the pending analysis settles the flag is cleared, whether
  the analysis resolved or rejected. So the intervals of two analyses never overlap.
\<close>

theorem C7_single_flight:
  "length (inFlight (comprehensive_run inputs)) \<le> 1 \<and>
   isAnalyzing (comprehensive_run inputs) = (inFlight (comprehensive_run inputs) \<noteq> []) \<and>
   length (inFlight (optimized_run inputs)) \<le> 1 \<and>
   isAnalyzing (optimized_run inputs) = (inFlight (optimized_run inputs) \<noteq> []) \<and>
   (inFlight (startComprehensiveWorker m now) \<noteq> inFlight m \<longrightarrow>
      \<not> isAnalyzing m \<and> isAnalyzing (startComprehensiveWorker m now)) \<and>
   (inFlight (startOptimizedWorker m now) \<noteq> inFlight m \<longrightarrow>
      \<not> isAnalyzing m \<and> isAnalyzing (startOptimizedWorker m now)) \<and>
   (isAnalyzing m \<longrightarrow> startComprehensiveWorker m now = m \<and> startOptimizedWorker m now = m) \<and>
   (inFlight m \<noteq> [] \<longrightarrow>
      \<not> isAnalyzing (comprehensiveWorker_settled m ok) \<and>
      \<not> isAnalyzing (optimizedWorker_settled m ok))"
  using comprehensive_run_inv [of inputs] optimized_run_inv [of inputs]
    worker_starts_only_when_idle [of m now] worker_idle_while_analyzing [of m now]
    settled_clears_flag [of m ok]
  unfolding flight_inv_def by blast

lemma two_analyses_run:
  "map signature (inFlight (comprehensive_run (take 1 two_analyses))) = [] \<and>
   map signature (inFlight (comprehensive_run (take 2 two_analyses))) = [''sig1''] \<and>
   isAnalyzing (comprehensive_run (take 2 two_analyses)) \<and>
   comprehensive_run (take 4 two_analyses) = comprehensive_run (take 3 two_analyses) \<and>
   \<not> isAnalyzing (comprehensive_run (take 5 two_analyses)) \<and>
   map signature (inFlight (comprehensive_run two_analyses)) = [''sig2'']"
  by (simp add: comprehensive_run_def two_analyses_def comprehensive_defs
        ComprehensivePumpMonitor_def run_eval)

text \<open>
  One detection is analysed after its age gate; a second arrives meanwhile, a tick during
  the analysis does nothing, the analysis fails, and only then the second one starts.
\<close>

theorem C7_single_flight_witness:
  "map signature (inFlight (comprehensive_run (take 1 two_analyses))) = [] \<and>
   map signature (inFlight (comprehensive_run (take 2 two_analyses))) = [''sig1''] \<and>
   isAnalyzing (comprehensive_run (take 2 two_analyses)) \<and>
   startComprehensiveWorker (comprehensive_run (take 2 two_analyses)) 60000 =
     comprehensive_run (take 2 two_analyses) \<and>
   \<not> isAnalyzing (comprehensiveWorker_settled (comprehensive_run (take 2 two_analyses)) False) \<and>
   length (inFlight (comprehensive_run two_analyses)) \<le> 1"
proof -
  let ?m1 = "comprehensive_run (take 1 two_analyses)"
  let ?m2 = "comprehensive_run (take 2 two_analyses)"
  have second: "?m2 = startComprehensiveWorker ?m1 30000"
    by (simp add: comprehensive_run_def two_analyses_def comprehensive_step_def)
  have started: "inFlight (startComprehensiveWorker ?m1 30000) \<noteq> inFlight ?m1"
    using two_analyses_run unfolding second [symmetric] by auto
  have busy: "isAnalyzing ?m2" and flying: "inFlight ?m2 \<noteq> []"
    using two_analyses_run by auto
  show ?thesis
    using two_analyses_run started busy flying second
      C7_single_flight [of two_analyses ?m1 30000 False]
      C7_single_flight [of two_analyses ?m2 60000 False]
    by simp
qed

text \<open>
  C8. When the event at the head of the queue is younger than \<open>analysisDelay\<close>, a worker
  cycle leaves the monitor exactly as it was: the event is back at the front, the rest of
  the queue is untouched, no analysis is started and the flag is as before. A message
  handled afterwards can only append behind the events already queued.
\<close>

theorem C8_young_event_requeued:
  assumes "tokenQueue m = ev # rest" and "now - detectedAt ev < analysisDelay m"
  shows "startComprehensiveWorker m now = m \<and> startOptimizedWorker m now = m \<and>
         (\<exists>new. tokenQueue (handleMessage (startComprehensiveWorker m now) msg later) =
                   ev # rest @ new) \<and>
         (\<exists>new. tokenQueue (handleMessage_optimized (startOptimizedWorker m now) msg later) =
                   ev # rest @ new)"
proof -
  have same: "startComprehensiveWorker m now = m" "startOptimizedWorker m now = m"
    using assms by (rule young_event_requeued)+
  obtain n1 where n1: "tokenQueue (handleMessage m msg later) = tokenQueue m @ n1"
    using handleMessage_appends by blast
  obtain n2 where n2: "tokenQueue (handleMessage_optimized m msg later) = tokenQueue m @ n2"
    using handleMessage_optimized_appends by blast
  show ?thesis using same n1 n2 assms(1) by simp
qed

lemma two_queued_eval:
  "tokenQueue two_queued =
     [\<lparr>signature = ''sig1'', slot = 1, logs = creation_logs, detectedAt = 1000\<rparr>,
      \<lparr>signature = ''sig2'', slot = 1, logs = creation_logs, detectedAt = 2000\<rparr>] \<and>
   analysisDelay two_queued = 25000 \<and> isStreaming two_queued \<and>
   maxQueueSize two_queued = 6 \<and> processedSignatures two_queued = {''sig2'', ''sig1''}"
  by (simp add: two_queued_def comprehensive_run_def comprehensive_defs
        ComprehensivePumpMonitor_def run_eval)

text \<open>
  Two events are queued at 1000 and 2000; a cycle at 9000 finds the first one 8 seconds
  old, under the 25 seconds of the gate, and a third detection then queues behind both.
\<close>

theorem C8_young_event_requeued_witness:
  "startComprehensiveWorker two_queued 9000 = two_queued \<and>
   map signature (tokenQueue (handleMessage (startComprehensiveWorker two_queued 9000)
                                (LogsNotification (Some (detection ''sig3''))) 9500)) =
     [''sig1'', ''sig2'', ''sig3'']"
proof -
  have q: "tokenQueue two_queued =
     \<lparr>signature = ''sig1'', slot = 1, logs = creation_logs, detectedAt = 1000\<rparr> #
     [\<lparr>signature = ''sig2'', slot = 1, logs = creation_logs, detectedAt = 2000\<rparr>]"
    using two_queued_eval by simp
  have young: "9000 - detectedAt \<lparr>signature = ''sig1'', slot = 1, logs = creation_logs,
                                  detectedAt = 1000\<rparr> < analysisDelay two_queued"
    using two_queued_eval by simp
  have same: "startComprehensiveWorker two_queued 9000 = two_queued"
    using C8_young_event_requeued [OF q young] by simp
  have "map signature (tokenQueue (handleMessage two_queued
          (LogsNotification (Some (detection ''sig3''))) 9500)) = [''sig1'', ''sig2'', ''sig3'']"
    using two_queued_eval
    by (simp add: handleMessage_def processTokenCreation_def bump_detected_def run_eval)
  then show ?thesis using same by simp
qed

lemma enhanced_counts_drop:
  assumes "isStreaming m" "maxQueueSize m \<le> length (tokenQueue m)"
    and "p_signature p \<notin> processedSignatures m" and "hasTokenCreation (p_logs p)"
    and "p_slot p = Some sl"
  shows "tokenQueue (handlePumpFunLog m (Some p) now) = tokenQueue m \<and>
         stats_skipped (stats (handlePumpFunLog m (Some p) now)) = stats_skipped (stats m) + 1"
  using assms by (simp add: handlePumpFunLog_def bump_detected_def Let_def)

lemma enhanced_full_drop:
  "length (tokenQueue (handlePumpFunLog enhanced_full (Some (detection ''sig101'')) 7000)) = 100 \<and>
   stats_skipped (stats (handlePumpFunLog enhanced_full (Some (detection ''sig101'')) 7000)) = 1"
  by (simp add: enhanced_full_def EnhancedPumpFunMonitor_def handlePumpFunLog_def
        bump_detected_def detection_def creation_logs_has no_stats_def Let_def)

text \<open>
  C9. What the comprehensive monitor does with a matching, new detection that finds the
  queue full: the queue is unchanged and nothing is thrown, but the only counter that
  moves is \<open>detected\<close>, which every detection increments; no counter records the drop.
  The optimized monitor does the same. (The queue-based monitor of
  \<open>enhanced_counts_drop\<close> does count the drop, in \<open>skipped\<close>.)
\<close>

theorem C9_full_queue_drop_not_counted:
  assumes "maxQueueSize m \<le> length (tokenQueue m)"
    and "p_signature p \<notin> processedSignatures m"
    and "isRealTokenCreation (p_logs p)"
  shows "tokenQueue (processTokenCreation m (Some p) now) = tokenQueue m \<and>
         stats (processTokenCreation m (Some p) now) =
           (stats m)\<lparr>stats_detected := stats_detected (stats m) + 1\<rparr> \<and>
         stats_skipped (stats (processTokenCreation m (Some p) now)) = stats_skipped (stats m) \<and>
         (isActualTokenCreation (p_logs p) \<longrightarrow>
            tokenQueue (processLogEvent m (Some p) now) = tokenQueue m \<and>
            stats (processLogEvent m (Some p) now) =
              (stats m)\<lparr>stats_detected := stats_detected (stats m) + 1\<rparr>)"
  using assms
  by (auto simp: processTokenCreation_def processLogEvent_def bump_detected_def Let_def
           split: option.splits)

text \<open>The seventh detection on the full queue of six: still six queued, seven detected, none skipped.\<close>

theorem C9_full_queue_drop_not_counted_witness:
  "length (tokenQueue (comprehensive_run six_detections)) = 6 \<and>
   length (tokenQueue (processTokenCreation (comprehensive_run six_detections)
                         (Some (detection ''sig7'')) 7000)) = 6 \<and>
   stats (processTokenCreation (comprehensive_run six_detections)
            (Some (detection ''sig7'')) 7000) =
     \<lparr>stats_detected = 7, stats_analyzed = 0, stats_filtered = 0, stats_failed = 0,
      stats_queued = 0, stats_skipped = 0\<rparr>"
proof -
  have filled: "maxQueueSize (comprehensive_run six_detections)
                \<le> length (tokenQueue (comprehensive_run six_detections))"
    using six_run by simp
  have unseen: "p_signature (detection ''sig7'')
                  \<notin> processedSignatures (comprehensive_run six_detections)"
    using six_run by (simp add: detection_def)
  have matching: "isRealTokenCreation (p_logs (detection ''sig7''))"
    by (simp add: detection_def creation_logs_real)
  show ?thesis
    using six_run C9_full_queue_drop_not_counted [OF filled unseen matching, of 7000]
    by (simp add: no_stats_def)
qed

lemma comprehensive_entered_fresh:
  "distinct (map signature (comprehensive_entered m inputs)) \<and>
   signature ` set (comprehensive_entered m inputs) \<inter> processedSignatures m = {}"
proof (induction inputs arbitrary: m)
  case Nil
  show ?case by simp
next
  case (Cons i inputs)
  let ?m' = "comprehensive_step m i"
  let ?a = "case i of Message msg now \<Rightarrow> appended m ?m' | _ \<Rightarrow> []"
  have a: "length ?a \<le> 1 \<and>
           (\<forall>e \<in> set ?a. signature e \<notin> processedSignatures m \<and>
                            signature e \<in> processedSignatures ?m')"
  proof (cases i)
    case (Message msg now)
    obtain new where new: "tokenQueue (handleMessage m msg now) = tokenQueue m @ new"
      "length new \<le> 1"
      "\<forall>e \<in> set new. signature e \<notin> processedSignatures m \<and>
                       signature e \<in> processedSignatures (handleMessage m msg now)"
      using handleMessage_appends by blast
    then show ?thesis by (simp add: Message appended_def comprehensive_step_def)
  qed simp_all
  have grows: "processedSignatures m \<subseteq> processedSignatures ?m'"
    by (rule comprehensive_step_processed)
  have ih: "distinct (map signature (comprehensive_entered ?m' inputs))"
    "signature ` set (comprehensive_entered ?m' inputs) \<inter> processedSignatures ?m' = {}"
    using Cons.IH [of ?m'] by simp_all
  have da: "distinct (map signature ?a)"
    using a by (cases ?a) (simp_all add: Suc_le_eq)
  have apart: "signature ` set ?a \<inter> signature ` set (comprehensive_entered ?m' inputs) = {}"
    using a ih(2) by blast
  have unseen: "(signature ` set ?a \<union> signature ` set (comprehensive_entered ?m' inputs))
                 \<inter> processedSignatures m = {}"
    using a ih(2) grows by blast
  have split: "comprehensive_entered m (i # inputs) = ?a @ comprehensive_entered ?m' inputs"
    by simp
  show ?case
    unfolding split using da ih(1) apart unseen by (simp add: image_Un)
qed

lemma optimized_entered_fresh:
  "distinct (map signature (optimized_entered m inputs)) \<and>
   signature ` set (optimized_entered m inputs) \<inter> processedSignatures m = {}"
proof (induction inputs arbitrary: m)
  case Nil
  show ?case by simp
next
  case (Cons i inputs)
  let ?m' = "optimized_step m i"
  let ?a = "case i of Message msg now \<Rightarrow> appended m ?m' | _ \<Rightarrow> []"
  have a: "length ?a \<le> 1 \<and>
           (\<forall>e \<in> set ?a. signature e \<notin> processedSignatures m \<and>
                            signature e \<in> processedSignatures ?m')"
  proof (cases i)
    case (Message msg now)
    obtain new where new: "tokenQueue (handleMessage_optimized m msg now) = tokenQueue m @ new"
      "length new \<le> 1"
      "\<forall>e \<in> set new. signature e \<notin> processedSignatures m \<and>
                       signature e \<in> processedSignatures (handleMessage_optimized m msg now)"
      using handleMessage_optimized_appends by blast
    then show ?thesis by (simp add: Message appended_def optimized_step_def)
  qed simp_all
  have grows: "processedSignatures m \<subseteq> processedSignatures ?m'"
    by (rule optimized_step_processed)
  have ih: "distinct (map signature (optimized_entered ?m' inputs))"
    "signature ` set (optimized_entered ?m' inputs) \<inter> processedSignatures ?m' = {}"
    using Cons.IH [of ?m'] by simp_all
  have da: "distinct (map signature ?a)"
    using a by (cases ?a) (simp_all add: Suc_le_eq)
  have apart: "signature ` set ?a \<inter> signature ` set (optimized_entered ?m' inputs) = {}"
    using a ih(2) by blast
  have unseen: "(signature ` set ?a \<union> signature ` set (optimized_entered ?m' inputs))
                 \<inter> processedSignatures m = {}"
    using a ih(2) grows by blast
  have split: "optimized_entered m (i # inputs) = ?a @ optimized_entered ?m' inputs"
    by simp
  show ?case
    unfolding split using da ih(1) apart unseen by (simp add: image_Un)
qed

lemma comprehensive_processed_mono:
  "processedSignatures m \<subseteq> processedSignatures (foldl comprehensive_step m inputs)"
proof (induction inputs arbitrary: m)
  case Nil
  show ?case by simp
next
  case (Cons i inputs)
  have "processedSignatures m \<subseteq> processedSignatures (comprehensive_step m i)"
    by (rule comprehensive_step_processed)
  also have "\<dots> \<subseteq> processedSignatures (foldl comprehensive_step (comprehensive_step m i) inputs)"
    by (rule Cons.IH)
  finally show ?case by simp
qed

lemma optimized_processed_mono:
  "processedSignatures m \<subseteq> processedSignatures (foldl optimized_step m inputs)"
proof (induction inputs arbitrary: m)
  case Nil
  show ?case by simp
next
  case (Cons i inputs)
  have "processedSignatures m \<subseteq> processedSignatures (optimized_step m i)"
    by (rule optimized_step_processed)
  also have "\<dots> \<subseteq> processedSignatures (foldl optimized_step (optimized_step m i) inputs)"
    by (rule Cons.IH)
  finally show ?case by simp
qed

lemma duplicate_dropped:
  "p_signature p \<in> processedSignatures m \<Longrightarrow> processTokenCreation m (Some p) now = m"
  "p_signature p \<in> processedSignatures m \<Longrightarrow> processLogEvent m (Some p) now = m"
  by (simp_all add: processTokenCreation_def processLogEvent_def)

lemma match_recorded:
  "isRealTokenCreation (p_logs p) \<Longrightarrow>
     p_signature p \<in> processedSignatures (processTokenCreation m (Some p) now)"
  "isActualTokenCreation (p_logs p) \<Longrightarrow>
     p_signature p \<in> processedSignatures (processLogEvent m (Some p) now)"
  by (auto simp: processTokenCreation_def processLogEvent_def bump_detected_def Let_def
           split: option.splits)

text \<open>
  C10. Over any sequence of inputs from the constructor's state, the events that enter
  the queue have pairwise different signatures, in both monitors. A notification whose
  signature is already recorded changes nothing (it is dropped before the log lines are
  looked at); a matching notification leaves its signature recorded; and the set of
  recorded signatures never shrinks, whatever happens afterwards.
\<close>

theorem C10_one_event_per_signature:
  "distinct (map signature (comprehensive_entered ComprehensivePumpMonitor inputs)) \<and>
   distinct (map signature (optimized_entered OptimizedPumpMonitor inputs)) \<and>
   (p_signature p \<in> processedSignatures m \<longrightarrow>
      processTokenCreation m (Some p) now = m \<and> processLogEvent m (Some p) now = m) \<and>
   (isRealTokenCreation (p_logs p) \<longrightarrow>
      p_signature p \<in> processedSignatures (processTokenCreation m (Some p) now)) \<and>
   (isActualTokenCreation (p_logs p) \<longrightarrow>
      p_signature p \<in> processedSignatures (processLogEvent m (Some p) now)) \<and>
   processedSignatures m \<subseteq> processedSignatures (foldl comprehensive_step m inputs) \<and>
   processedSignatures m \<subseteq> processedSignatures (foldl optimized_step m inputs)"
  using comprehensive_entered_fresh [of ComprehensivePumpMonitor inputs]
    optimized_entered_fresh [of OptimizedPumpMonitor inputs]
    duplicate_dropped [of p m now] match_recorded [of p m now]
    comprehensive_processed_mono [of m inputs] optimized_processed_mono [of m inputs]
  by blast

lemma replayed_eval:
  "map signature (comprehensive_entered ComprehensivePumpMonitor replayed) = [''sigA'', ''sigB''] \<and>
   processedSignatures (comprehensive_run (take 1 replayed)) = {''sigA''}"
  by (simp add: replayed_def comprehensive_run_def comprehensive_defs appended_def
        ComprehensivePumpMonitor_def run_eval)

text \<open>
  The notification of \<open>sigA\<close> arrives four times, before, during and after its analysis;
  it enters the queue once.
\<close>

theorem C10_one_event_per_signature_witness:
  "map signature (comprehensive_entered ComprehensivePumpMonitor replayed) = [''sigA'', ''sigB''] \<and>
   distinct (map signature (comprehensive_entered ComprehensivePumpMonitor replayed)) \<and>
   processTokenCreation (comprehensive_run (take 1 replayed)) (Some (detection ''sigA'')) 2000 =
     comprehensive_run (take 1 replayed) \<and>
   ''sigA'' \<in> processedSignatures
      (processTokenCreation ComprehensivePumpMonitor (Some (detection ''sigA'')) 1000) \<and>
   ''sigA'' \<in> processedSignatures
      (processLogEvent OptimizedPumpMonitor (Some (detection ''sigA'')) 1000)"
proof -
  have seen: "p_signature (detection ''sigA'')
                \<in> processedSignatures (comprehensive_run (take 1 replayed))"
    using replayed_eval by (simp add: detection_def)
  have matching: "isRealTokenCreation (p_logs (detection ''sigA''))"
    and passing: "isActualTokenCreation (p_logs (detection ''sigA''))"
    by (simp_all add: detection_def creation_logs_real creation_logs_actual)
  have sig: "p_signature (detection ''sigA'') = ''sigA''" by (simp add: detection_def)
  show ?thesis
    using replayed_eval seen matching passing
      C10_one_event_per_signature [of replayed "detection ''sigA''"
        "comprehensive_run (take 1 replayed)" 2000]
      C10_one_event_per_signature [of replayed "detection ''sigA''" ComprehensivePumpMonitor 1000]
      C10_one_event_per_signature [of replayed "detection ''sigA''" OptimizedPumpMonitor 1000]
    unfolding sig by blast
qed

end
